theory Spec2Isabelle
  imports Complex_Main
begin

section \<open>JavaScript values\<close>

text \<open>
  The values the program handles: what \<^verbatim>\<open>JSON.parse\<close> returns, object literals,
  \<^verbatim>\<open>undefined\<close>, and functions (by name). A finite JavaScript number is a rational
  (\<open>Num\<close>), which is exact for the integers and quarter-integers the scoring works on;
  \<open>NaN\<close> is the only non-finite number represented. An object is an association list
  read from the front. A string is the sequence of the bytes of its UTF-8 encoding.
\<close>

datatype jsval =
    Undefined
  | Null
  | Bool bool
  | Num rat
  | NaN
  | Str string
  | Arr "jsval list"
  | Obj "(string \<times> jsval) list"
  | Fun string

text \<open>An exception value: the error's name, its \<^verbatim>\<open>message\<close> and its \<^verbatim>\<open>code\<close> property.\<close>

record js_error =
  err_name :: string
  err_message :: string
  err_code :: jsval

definition mk_error :: "string \<Rightarrow> string \<Rightarrow> js_error" where
  "mk_error name msg = \<lparr>err_name = name, err_message = msg, err_code = Undefined\<rparr>"

text \<open>Truthiness, as \<^verbatim>\<open>if (v)\<close>, \<^verbatim>\<open>!v\<close> and \<^verbatim>\<open>v || w\<close> test it.\<close>

fun truthy :: "jsval \<Rightarrow> bool" where
  "truthy Undefined = False"
| "truthy Null = False"
| "truthy (Bool b) = b"
| "truthy (Num r) = (r \<noteq> 0)"
| "truthy NaN = False"
| "truthy (Str s) = (s \<noteq> [])"
| "truthy (Arr xs) = True"
| "truthy (Obj kvs) = True"
| "truthy (Fun f) = True"

definition js_or :: "jsval \<Rightarrow> jsval \<Rightarrow> jsval" where
  "js_or a b = (if truthy a then a else b)"

definition nullish :: "jsval \<Rightarrow> bool" where
  "nullish v = (v = Undefined \<or> v = Null)"

text \<open>\<^verbatim>\<open>a ?? b\<close>\<close>

definition js_coalesce :: "jsval \<Rightarrow> jsval \<Rightarrow> jsval" where
  "js_coalesce a b = (if nullish a then b else a)"

text \<open>The decimal rendering of a natural number, as a template literal prints it.\<close>

definition digit_char :: "nat \<Rightarrow> char" where
  "digit_char d = ''0123456789'' ! d"

fun dec :: "nat \<Rightarrow> string" where
  "dec n = (if n < 10 then [digit_char n] else dec (n div 10) @ [digit_char (n mod 10)])"

declare dec.simps [simp del]

text \<open>
  Reading a property, \<^verbatim>\<open>v.k\<close>: a TypeError on \<^verbatim>\<open>undefined\<close> and \<^verbatim>\<open>null\<close>,
  the stored value or \<^verbatim>\<open>undefined\<close> on an object. None of the names the program reads
  (\<^verbatim>\<open>metadata\<close>, \<^verbatim>\<open>vulnerabilities\<close>, \<^verbatim>\<open>critical\<close>, \<^verbatim>\<open>high\<close>, \<^verbatim>\<open>choices\<close>,
  \<^verbatim>\<open>message\<close>, \<^verbatim>\<open>content\<close>, \<^verbatim>\<open>failed\<close>, the count names) is an inherited property
  of a primitive, an array or a function, so those read as \<^verbatim>\<open>undefined\<close>.
\<close>

definition cannot_read :: "string \<Rightarrow> jsval \<Rightarrow> js_error" where
  "cannot_read k v =
     mk_error ''TypeError''
       (''Cannot read properties of '' @ (if v = Null then ''null'' else ''undefined'') @
        '' (reading '' @ [CHR 0x27] @ k @ [CHR 0x27] @ '')'')"

fun get_prop :: "jsval \<Rightarrow> string \<Rightarrow> js_error + jsval" where
  "get_prop Undefined k = Inl (cannot_read k Undefined)"
| "get_prop Null k = Inl (cannot_read k Null)"
| "get_prop (Obj kvs) k = Inr (case map_of kvs k of Some v \<Rightarrow> v | None \<Rightarrow> Undefined)"
| "get_prop v k = Inr Undefined"

text \<open>Reading an index, \<^verbatim>\<open>v[i]\<close>: an array element, a one-character string, or a key.\<close>

fun get_index :: "jsval \<Rightarrow> nat \<Rightarrow> js_error + jsval" where
  "get_index (Arr xs) i = Inr (if i < length xs then xs ! i else Undefined)"
| "get_index (Str s) i = Inr (if i < length s then Str [s ! i] else Undefined)"
| "get_index v i = get_prop v (dec i)"

text \<open>One link of an optional chain, \<^verbatim>\<open>v?.k\<close>: \<^verbatim>\<open>undefined\<close> when \<open>v\<close> is nullish.\<close>

definition opt_chain :: "jsval \<Rightarrow> (jsval \<Rightarrow> js_error + jsval) \<Rightarrow> js_error + jsval" where
  "opt_chain v read = (if nullish v then Inr Undefined else read v)"

text \<open>
  The white space that \<^verbatim>\<open>String.prototype.trim\<close> and \<^verbatim>\<open>parseInt\<close> strip is the
  tab, the line feed, the vertical tab, the form feed, the carriage return, the space,
  U+00A0, U+1680, U+2000 to U+200A, U+2028, U+2029, U+202F, U+205F, U+3000 and the byte
  order mark U+FEFF, each as its bytes.
\<close>

definition white_space :: "string list" where
  "white_space =
     [[CHR 0x09], [CHR 0x0A], [CHR 0x0B], [CHR 0x0C], [CHR 0x0D], [CHR 0x20],
      [CHR 0xC2, CHR 0xA0],
      [CHR 0xE1, CHR 0x9A, CHR 0x80],
      [CHR 0xE2, CHR 0x80, CHR 0x80], [CHR 0xE2, CHR 0x80, CHR 0x81],
      [CHR 0xE2, CHR 0x80, CHR 0x82], [CHR 0xE2, CHR 0x80, CHR 0x83],
      [CHR 0xE2, CHR 0x80, CHR 0x84], [CHR 0xE2, CHR 0x80, CHR 0x85],
      [CHR 0xE2, CHR 0x80, CHR 0x86], [CHR 0xE2, CHR 0x80, CHR 0x87],
      [CHR 0xE2, CHR 0x80, CHR 0x88], [CHR 0xE2, CHR 0x80, CHR 0x89],
      [CHR 0xE2, CHR 0x80, CHR 0x8A],
      [CHR 0xE2, CHR 0x80, CHR 0xA8], [CHR 0xE2, CHR 0x80, CHR 0xA9],
      [CHR 0xE2, CHR 0x80, CHR 0xAF],
      [CHR 0xE2, CHR 0x81, CHR 0x9F],
      [CHR 0xE3, CHR 0x80, CHR 0x80],
      [CHR 0xEF, CHR 0xBB, CHR 0xBF]]"

text \<open>
  The number of bytes of the entry of the table that the string starts with, 0 when it
  starts with none; and the string without every such entry at its start.
\<close>

definition prefix_length :: "string list \<Rightarrow> string \<Rightarrow> nat" where
  "prefix_length table s =
     (case find (\<lambda>p. take (length p) s = p) table of
        Some p \<Rightarrow> length p
      | None \<Rightarrow> 0)"

function drop_prefixes :: "string list \<Rightarrow> string \<Rightarrow> string" where
  "drop_prefixes table s =
     (if prefix_length table s = 0 then s
      else drop_prefixes table (drop (prefix_length table s) s))"
  by pat_completeness auto
termination
proof (relation "measure (\<lambda>(table, s). length s)")
  show "wf (measure (\<lambda>(table, s). length s))"
    by simp
next
  fix table :: "string list" and s :: string
  assume step: "prefix_length table s \<noteq> 0"
  then obtain p where p: "find (\<lambda>p. take (length p) s = p) table = Some p" and "length p \<noteq> 0"
    by (auto simp: prefix_length_def split: option.splits)
  then have "take (length p) s = p" and "p \<noteq> []"
    by (auto simp: find_Some_iff)
  then have "s \<noteq> []"
    by auto
  with step show "((table, drop (prefix_length table s) s), (table, s))
      \<in> measure (\<lambda>(table, s). length s)"
    by simp
qed

declare drop_prefixes.simps [simp del]

text \<open>
  \<^verbatim>\<open>String.prototype.trim\<close>: the white space is taken off the start, and off the end as
  the reversed entries off the start of the reversed string.
\<close>

definition trim :: "string \<Rightarrow> string" where
  "trim s = rev (drop_prefixes (map rev white_space) (rev (drop_prefixes white_space s)))"

text \<open>
  \<^verbatim>\<open>parseInt(s)\<close> without a radix: leading white space, a sign, an optional
  \<^verbatim>\<open>0x\<close> prefix, then the longest run of digits; \<open>None\<close> is \<^verbatim>\<open>NaN\<close>. The integer is
  exact here, where JavaScript rounds to a double beyond \<open>2 ^ 53\<close>; the comparison with
  the size limit is the same for both.
\<close>

definition digit_value :: "nat \<Rightarrow> char \<Rightarrow> nat option" where
  "digit_value R c =
     (let n = (of_char c :: nat);
          v = (if 48 \<le> n \<and> n \<le> 57 then Some (n - 48)
               else if 97 \<le> n \<and> n \<le> 122 then Some (n - 87)
               else if 65 \<le> n \<and> n \<le> 90 then Some (n - 55)
               else None)
      in case v of Some d \<Rightarrow> (if d < R then Some d else None) | None \<Rightarrow> None)"

fun digits_value :: "nat \<Rightarrow> string \<Rightarrow> nat option \<Rightarrow> nat option" where
  "digits_value R [] acc = acc"
| "digits_value R (c # cs) acc =
     (case digit_value R c of
        None \<Rightarrow> acc
      | Some d \<Rightarrow> digits_value R cs (Some ((case acc of None \<Rightarrow> 0 | Some a \<Rightarrow> a) * R + d)))"

definition parseInt :: "string \<Rightarrow> int option" where
  "parseInt s =
     (let S = drop_prefixes white_space s;
          negative = (take 1 S = ''-'');
          S1 = (if take 1 S = ''-'' \<or> take 1 S = ''+'' then drop 1 S else S);
          hex = (take 2 S1 = ''0x'' \<or> take 2 S1 = ''0X'');
          Z = (if hex then digits_value 16 (drop 2 S1) None else digits_value 10 S1 None)
      in case Z of
           None \<Rightarrow> None
         | Some m \<Rightarrow> Some (if negative then - int m else int m))"

section \<open>The scoring engine: \<^verbatim>\<open>computeAriScore\<close>\<close>

text \<open>
  The argument of \<^verbatim>\<open>computeAriScore\<close> as far as the function reads it, with counts that
  are finite numbers:
  \<^verbatim>\<open>{ eslint: {errorCount, warningCount}, npmAudit: {criticalVulnerabilities, highVulnerabilities} }\<close>.
\<close>

record eslint_counts =
  errorCount :: rat
  warningCount :: rat

record audit_counts =
  criticalVulnerabilities :: rat
  highVulnerabilities :: rat

record analysis =
  eslint :: eslint_counts
  npmAudit :: audit_counts

record metrics =
  eslint_errors :: rat
  eslint_warnnings :: rat
  critical_vulns :: rat
  high_vulns :: rat

record score_result =
  ari_score :: int
  status :: string
  metrics :: metrics

definition WEIGHT_ESLINT_ERROR :: rat where "WEIGHT_ESLINT_ERROR = 1"
definition WEIGHT_ESLINT_WARNING :: rat where "WEIGHT_ESLINT_WARNING = 1 / 4"
definition WEIGHT_CRITICAL_VULN :: rat where "WEIGHT_CRITICAL_VULN = 15"
definition WEIGHT_HIGH_VULN :: rat where "WEIGHT_HIGH_VULN = 5"
definition STARTING_SCORE :: rat where "STARTING_SCORE = 100"

text \<open>\<^verbatim>\<open>Math.round\<close>: the nearest integer, a tie going up.\<close>

definition Math_round :: "rat \<Rightarrow> int" where
  "Math_round x = \<lfloor>x + 1 / 2\<rfloor>"

definition computeAriScore :: "analysis \<Rightarrow> score_result" where
  "computeAriScore a =
     (let errors = errorCount (eslint a);
          warnings = warningCount (eslint a);
          critical = criticalVulnerabilities (npmAudit a);
          high = highVulnerabilities (npmAudit a);
          deduction =
            errors * WEIGHT_ESLINT_ERROR +
            warnings * WEIGHT_ESLINT_WARNING +
            critical * WEIGHT_CRITICAL_VULN +
            high * WEIGHT_HIGH_VULN;
          rawScore = STARTING_SCORE - deduction;
          finalScore = max 0 (min 100 rawScore);
          roundedScore = Math_round finalScore;
          status =
            (if roundedScore \<ge> 80 then ''Low Risk''
             else if roundedScore \<ge> 60 then ''Moderate Risk''
             else ''High Risk'')
      in \<lparr>ari_score = roundedScore,
          status = status,
          metrics = \<lparr>eslint_errors = errors,
                     eslint_warnnings = warnings,
                     critical_vulns = critical,
                     high_vulns = high\<rparr>\<rparr>)"

text \<open>An analysis with the four counts \<open>e\<close>, \<open>w\<close>, \<open>c\<close>, \<open>h\<close>.\<close>

definition counts :: "rat \<Rightarrow> rat \<Rightarrow> rat \<Rightarrow> rat \<Rightarrow> analysis" where
  "counts e w c h =
     \<lparr>eslint = \<lparr>errorCount = e, warningCount = w\<rparr>,
      npmAudit = \<lparr>criticalVulnerabilities = c, highVulnerabilities = h\<rparr>\<rparr>"


section \<open>Effects: the directory, the trace, and what the platform answers\<close>

text \<open>
  What a run does outside the process is written down as a trace of events, in order.
  Of the file system only one fact is tracked: whether the run's temp directory exists.
\<close>

datatype event =
    Exec string
  | Require string
  | LintFiles string
  | ReadFile string
  | Fetch
  | Remove string
  | Console string "string list"

record world =
  on_disk :: bool
  trace :: "event list"

text \<open>
  The answers of \<^verbatim>\<open>child_process.exec\<close> to its callback: the error (with its
  \<^verbatim>\<open>code\<close> and \<^verbatim>\<open>message\<close>) if any, and the two output streams.
\<close>

record exec_error =
  code :: jsval
  message :: string

record exec_callback =
  cb_error :: "exec_error option"
  cb_stdout :: string
  cb_stderr :: string

text \<open>One entry of the array \<^verbatim>\<open>eslint.lintFiles\<close> resolves with.\<close>

record lint_result =
  result_errorCount :: rat
  result_warningCount :: rat

text \<open>The request \<^verbatim>\<open>generateLLMExplanation\<close> posts: the values its templates interpolate.\<close>

record llm_request =
  req_authorization :: string
  req_model :: string
  req_temperature :: rat
  req_ari_score :: jsval
  req_status :: jsval
  req_eslint_errors :: jsval
  req_eslint_warnings :: jsval
  req_critical_vulns :: jsval
  req_high_vulns :: jsval
  req_tests_present :: jsval
  req_eslint_failed :: jsval

text \<open>A response of \<^verbatim>\<open>fetch\<close>: \<^verbatim>\<open>ok\<close>, \<^verbatim>\<open>status\<close>, and what \<^verbatim>\<open>json()\<close> settles to.\<close>

record http_response =
  ok :: bool
  http_status :: nat
  json_body :: "js_error + jsval"

text \<open>
  Everything a run takes from outside the repository's code: the process (directory,
  clock, platform, environment), the shell, the file system, the ESLint package, the
  network, and the built-ins \<^verbatim>\<open>path.join\<close>, \<^verbatim>\<open>JSON.parse\<close>, \<^verbatim>\<open>ToString\<close>
  and the conversion of a string to a number (\<open>None\<close> is \<^verbatim>\<open>NaN\<close>). \<open>shell_disk\<close> says
  what a command does to the existence of the temp directory.
\<close>

record env =
  dirname :: string
  now :: nat
  platform :: string
  path_join :: "string list \<Rightarrow> string"
  shell :: "string \<Rightarrow> exec_callback"
  shell_disk :: "string \<Rightarrow> bool \<Rightarrow> bool"
  readFile :: "string \<Rightarrow> js_error + string"
  rm :: "string \<Rightarrow> js_error option"
  JSON_parse :: "string \<Rightarrow> js_error + jsval"
  ToString :: "jsval \<Rightarrow> string"
  StringToNumber :: "string \<Rightarrow> rat option"
  require_eslint :: "js_error option"
  new_ESLint :: "string \<Rightarrow> js_error option"
  lintFiles :: "string \<Rightarrow> js_error + lint_result list"
  OPENAI_API_KEY :: "string option"
  fetch :: "llm_request \<Rightarrow> js_error + http_response"

text \<open>
  An asynchronous computation: from the world before to the outcome (\<open>Inl\<close> a thrown
  error or a rejected promise, \<open>Inr\<close> the value) and the world after.
\<close>

type_synonym 'a io = "world \<Rightarrow> (js_error + 'a) \<times> world"

definition io_return :: "'a \<Rightarrow> 'a io" where
  "io_return x = (\<lambda>w. (Inr x, w))"

definition io_throw :: "js_error \<Rightarrow> 'a io" where
  "io_throw e = (\<lambda>w. (Inl e, w))"

definition io_lift :: "js_error + 'a \<Rightarrow> 'a io" where
  "io_lift r = (\<lambda>w. (r, w))"

definition io_bind :: "'a io \<Rightarrow> ('a \<Rightarrow> 'b io) \<Rightarrow> 'b io" where
  "io_bind m f = (\<lambda>w. case m w of (Inl e, w') \<Rightarrow> (Inl e, w') | (Inr x, w') \<Rightarrow> f x w')"

text \<open>\<^verbatim>\<open>try { m } catch (e) { h e }\<close>\<close>

definition io_catch :: "'a io \<Rightarrow> (js_error \<Rightarrow> 'a io) \<Rightarrow> 'a io" where
  "io_catch m h = (\<lambda>w. case m w of (Inl e, w') \<Rightarrow> h e w' | (Inr x, w') \<Rightarrow> (Inr x, w'))"

text \<open>
  \<^verbatim>\<open>try { m } finally { fin }\<close>: \<open>fin\<close> runs after \<open>m\<close> however \<open>m\<close> ended; the outcome
  of \<open>m\<close> stands unless \<open>fin\<close> itself throws.
\<close>

definition io_finally :: "'a io \<Rightarrow> unit io \<Rightarrow> 'a io" where
  "io_finally m fin =
     (\<lambda>w. case m w of
            (r, w') \<Rightarrow> (case fin w' of (Inl e, w'') \<Rightarrow> (Inl e, w'') | (Inr u, w'') \<Rightarrow> (r, w'')))"

definition emit :: "event \<Rightarrow> unit io" where
  "emit ev = (\<lambda>w. (Inr (), w\<lparr>trace := trace w @ [ev]\<rparr>))"

text \<open>
  \<^verbatim>\<open>execCommand\<close>: the promise rejects when \<^verbatim>\<open>exec\<close> reports an error whose code is
  not \<open>1\<close>, and otherwise resolves with the trimmed output, the error stream appended.
\<close>

definition exec_outcome :: "env \<Rightarrow> string \<Rightarrow> js_error + string" where
  "exec_outcome E command =
     (let cb = shell E command;
          resolved = trim (cb_stdout cb) @
                     (if cb_stderr cb \<noteq> [] then [CHR 0x0A] @ trim (cb_stderr cb) else [])
      in case cb_error cb of
           Some error \<Rightarrow>
             if code error \<noteq> Num 1 then
               Inl (mk_error ''Error''
                      (''Command failed: '' @ message error @ [CHR 0x0A] @
                       ''Stderr: '' @ cb_stderr cb))
             else Inr resolved
         | None \<Rightarrow> Inr resolved)"

definition execCommand :: "env \<Rightarrow> string \<Rightarrow> string io" where
  "execCommand E command =
     (\<lambda>w. (exec_outcome E command,
            w\<lparr>on_disk := shell_disk E command (on_disk w),
              trace := trace w @ [Exec command]\<rparr>))"

text \<open>
  \<^verbatim>\<open>fs.rm(dir, {recursive: true, force: true})\<close>: when it succeeds the directory is
  gone; when it fails the directory is as it was.
\<close>

definition fs_rm :: "env \<Rightarrow> string \<Rightarrow> unit io" where
  "fs_rm E dir =
     (\<lambda>w. case rm E dir of
            None \<Rightarrow> (Inr (), w\<lparr>on_disk := False, trace := trace w @ [Remove dir]\<rparr>)
          | Some e \<Rightarrow> (Inl e, w\<lparr>trace := trace w @ [Remove dir]\<rparr>))"

definition fs_readFile :: "env \<Rightarrow> string \<Rightarrow> string io" where
  "fs_readFile E file = (\<lambda>w. (readFile E file, w\<lparr>trace := trace w @ [ReadFile file]\<rparr>))"

section \<open>The analyzers\<close>

text \<open>Sequencing of pure steps that may throw.\<close>

definition try_bind :: "js_error + 'a \<Rightarrow> ('a \<Rightarrow> js_error + 'b) \<Rightarrow> js_error + 'b" where
  "try_bind r f = (case r of Inl e \<Rightarrow> Inl e | Inr x \<Rightarrow> f x)"

definition option_throw :: "js_error option \<Rightarrow> js_error + unit" where
  "option_throw r = (case r of None \<Rightarrow> Inr () | Some e \<Rightarrow> Inl e)"

subsection \<open>\<^verbatim>\<open>runESLintAnalysis\<close>\<close>

text \<open>The loop over the results, with its two accumulators.\<close>

fun sum_counts :: "lint_result list \<Rightarrow> rat \<Rightarrow> rat \<Rightarrow> rat \<times> rat" where
  "sum_counts [] errors warnings = (errors, warnings)"
| "sum_counts (result # results) errors warnings =
     sum_counts results (errors + result_errorCount result) (warnings + result_warningCount result)"

definition require_eslint_io :: "env \<Rightarrow> unit io" where
  "require_eslint_io E =
     (\<lambda>w. (option_throw (require_eslint E), w\<lparr>trace := trace w @ [Require ''eslint'']\<rparr>))"

definition lintFiles_io :: "env \<Rightarrow> string \<Rightarrow> lint_result list io" where
  "lintFiles_io E repoDir =
     (\<lambda>w. (lintFiles E repoDir, w\<lparr>trace := trace w @ [LintFiles repoDir]\<rparr>))"

text \<open>The body of the \<^verbatim>\<open>try\<close> block.\<close>

definition eslint_try :: "env \<Rightarrow> string \<Rightarrow> jsval io" where
  "eslint_try E repoDir =
     io_bind (require_eslint_io E) (\<lambda>_.
     io_bind (io_lift (option_throw (new_ESLint E repoDir))) (\<lambda>_.
     io_bind (lintFiles_io E repoDir) (\<lambda>results.
       case sum_counts results 0 0 of
         (errors, warnings) \<Rightarrow>
           io_return (Obj [(''errors'', Num errors), (''warnings'', Num warnings)]))))"

text \<open>
  The characters between the two halves of the warning, as the UTF-8 bytes the source
  file holds at that place.
\<close>

definition warning_dash :: string where
  "warning_dash = [CHR 0xC3, CHR 0xA2, CHR 0xE2, CHR 0x82, CHR 0xAC, CHR 0xE2, CHR 0x80, CHR 0x9D]"

definition runESLintAnalysis :: "env \<Rightarrow> string \<Rightarrow> jsval io" where
  "runESLintAnalysis E repoDir =
     io_catch (eslint_try E repoDir)
       (\<lambda>err.
          io_bind (emit (Console ''warn''
                     [''ESLint failed '' @ warning_dash @ '' applying conservative penalty''])) (\<lambda>_.
          io_return (Obj [(''errors'', Num 20), (''warnings'', Num 50), (''failed'', Bool True)])))"

subsection \<open>\<^verbatim>\<open>runNpmAudit\<close>\<close>

text \<open>\<^verbatim>\<open>jsonOutput.metadata?.vulnerabilities\<close>\<close>

definition audit_summary :: "jsval \<Rightarrow> js_error + jsval" where
  "audit_summary jsonOutput =
     try_bind (get_prop jsonOutput ''metadata'') (\<lambda>metadata.
       opt_chain metadata (\<lambda>m. get_prop m ''vulnerabilities''))"

text \<open>
  The body of the \<^verbatim>\<open>try\<close> block. The variables \<^verbatim>\<open>critical\<close> and \<^verbatim>\<open>high\<close> are declared
  before the block and assigned inside it, so the block is modelled with their values
  passed in and handed back, together with the error it was left by, if any.
\<close>

definition audit_try ::
  "env \<Rightarrow> string \<Rightarrow> jsval \<Rightarrow> jsval \<Rightarrow> world \<Rightarrow> (js_error option \<times> jsval \<times> jsval) \<times> world" where
  "audit_try E auditCommand critical0 high0 w =
     (case execCommand E auditCommand w of
        (Inl e, w1) \<Rightarrow> ((Some e, critical0, high0), w1)
      | (Inr output, w1) \<Rightarrow>
          (case JSON_parse E output of
             Inl e \<Rightarrow> ((Some e, critical0, high0), w1)
           | Inr jsonOutput \<Rightarrow>
               (case audit_summary jsonOutput of
                  Inl e \<Rightarrow> ((Some e, critical0, high0), w1)
                | Inr summary \<Rightarrow>
                    if truthy summary then
                      (case get_prop summary ''critical'' of
                         Inl e \<Rightarrow> ((Some e, critical0, high0), w1)
                       | Inr c \<Rightarrow>
                           (let critical = js_or c (Num 0)
                            in case get_prop summary ''high'' of
                                 Inl e \<Rightarrow> ((Some e, critical, high0), w1)
                               | Inr h \<Rightarrow> ((None, critical, js_or h (Num 0)), w1)))
                    else ((None, critical0, high0), w1))))"

definition auditCommand :: "string \<Rightarrow> string" where
  "auditCommand repoDir = ''cd '' @ repoDir @ '' && npm audit --json''"

definition runNpmAudit :: "env \<Rightarrow> string \<Rightarrow> jsval io" where
  "runNpmAudit E repoDir =
     (\<lambda>w. case audit_try E (auditCommand repoDir) (Num 0) (Num 0) w of
                ((thrown, critical, high), w1) \<Rightarrow>
                  (let w2 =
                     (case thrown of
                        None \<Rightarrow> w1
                      | Some e \<Rightarrow>
                          w1\<lparr>trace := trace w1 @
                                [Console ''error''
                                   [''npm audit analysis failed to parse output:'', err_message e]]\<rparr>)
                   in (Inr (Obj [(''critical'', critical), (''high'', high)]), w2)))"

section \<open>The explanation generator: \<^verbatim>\<open>generateLLMExplanation\<close>\<close>

definition OPENAI_MODEL :: string where
  "OPENAI_MODEL = ''gpt-4o-mini''"

text \<open>
  The destructuring of the argument and the two templates, up to the request: every
  property read is in the order of the source, and each can throw. \<^verbatim>\<open>context\<close> gets its
  default \<^verbatim>\<open>{}\<close> only when it is \<^verbatim>\<open>undefined\<close>. All of this stands before the
  \<^verbatim>\<open>try\<close> block. The fixed wording of the prompts is left out of the request.
\<close>

definition build_request :: "string \<Rightarrow> jsval \<Rightarrow> js_error + llm_request" where
  "build_request key input =
     try_bind (get_prop input ''ari_score'') (\<lambda>ari_score.
     try_bind (get_prop input ''status'') (\<lambda>status.
     try_bind (get_prop input ''metrics'') (\<lambda>metrics.
     try_bind (get_prop input ''context'') (\<lambda>context0.
     let context = (if context0 = Undefined then Obj [] else context0) in
     try_bind (get_prop metrics ''eslint_errors'') (\<lambda>errors.
     try_bind (get_prop metrics ''eslint_warnnings'') (\<lambda>warnings.
     try_bind (get_prop metrics ''critical_vulns'') (\<lambda>critical.
     try_bind (get_prop metrics ''high_vulns'') (\<lambda>high.
     try_bind (get_prop context ''has_tests'') (\<lambda>has_tests.
     try_bind (get_prop context ''eslint_failed'') (\<lambda>eslint_failed.
       Inr \<lparr>req_authorization = ''Bearer '' @ key,
            req_model = OPENAI_MODEL,
            req_temperature = 1 / 5,
            req_ari_score = ari_score,
            req_status = status,
            req_eslint_errors = errors,
            req_eslint_warnings = warnings,
            req_critical_vulns = critical,
            req_high_vulns = high,
            req_tests_present = js_coalesce has_tests (Str ''unknown''),
            req_eslint_failed = js_coalesce eslint_failed (Bool False)\<rparr>))))))))))"

definition fetch_io :: "env \<Rightarrow> llm_request \<Rightarrow> http_response io" where
  "fetch_io E req = (\<lambda>w. (fetch E req, w\<lparr>trace := trace w @ [Fetch]\<rparr>))"

text \<open>\<^verbatim>\<open>data.choices?.[0]?.message?.content\<close>\<close>

definition message_content :: "jsval \<Rightarrow> js_error + jsval" where
  "message_content data =
     try_bind (get_prop data ''choices'') (\<lambda>choices.
     try_bind (opt_chain choices (\<lambda>c. get_index c 0)) (\<lambda>first.
     try_bind (opt_chain first (\<lambda>f. get_prop f ''message'')) (\<lambda>msg.
       opt_chain msg (\<lambda>m. get_prop m ''content''))))"

text \<open>\<^verbatim>\<open>JSON.parse(v)\<close>: the argument is converted to a string first.\<close>

definition JSON_parse_value :: "env \<Rightarrow> jsval \<Rightarrow> js_error + jsval" where
  "JSON_parse_value E v = JSON_parse E (case v of Str s \<Rightarrow> s | _ \<Rightarrow> ToString E v)"

text \<open>The body of the \<^verbatim>\<open>try\<close> block.\<close>

definition llm_try :: "env \<Rightarrow> llm_request \<Rightarrow> jsval io" where
  "llm_try E req =
     io_bind (fetch_io E req) (\<lambda>response.
       if \<not> ok response then
         io_bind (emit (Console ''warn'' [''LLM request failed:'', dec (http_status response)])) (\<lambda>_.
         io_return Null)
       else
         io_bind (io_lift (json_body response)) (\<lambda>data.
         io_bind (io_lift (message_content data)) (\<lambda>content.
           if \<not> truthy content then io_return Null
           else io_lift (JSON_parse_value E content))))"

text \<open>
  \<^verbatim>\<open>process.env.OPENAI_API_KEY\<close> is a string or \<^verbatim>\<open>undefined\<close> (\<open>None\<close>);
  \<^verbatim>\<open>!OPENAI_API_KEY\<close> holds for \<^verbatim>\<open>undefined\<close> and for the empty string.
\<close>

definition llm_skipped :: "jsval io" where
  "llm_skipped =
     io_bind (emit (Console ''warn'' [''LLM skipped: OPENAI_API_KEY not set''])) (\<lambda>_.
     io_return Null)"

definition generateLLMExplanation :: "env \<Rightarrow> jsval \<Rightarrow> jsval io" where
  "generateLLMExplanation E input =
     (case OPENAI_API_KEY E of
        None \<Rightarrow> llm_skipped
      | Some key \<Rightarrow>
          if key = [] then llm_skipped
          else
            io_bind (io_lift (build_request key input)) (\<lambda>req.
              io_catch (llm_try E req)
                (\<lambda>err.
                   io_bind (emit (Console ''warn''
                              [''LLM explanation failed:'', err_message err])) (\<lambda>_.
                   io_return Null))))"




section \<open>The scoring engine on the orchestrator's values\<close>

text \<open>
  The orchestrator hands \<^verbatim>\<open>computeAriScore\<close> an object whose audit counts come out of
  parsed JSON. The multiplications convert each count to a number; where all four are
  numbers the result is that of \<open>computeAriScore\<close>, and where one is \<^verbatim>\<open>NaN\<close> so are the
  deduction and the score, both comparisons are false, and the status stays
  \<^verbatim>\<open>"High Risk"\<close>. The metrics carry the counts as they were read.
\<close>

definition ToNumber :: "env \<Rightarrow> jsval \<Rightarrow> rat option" where
  "ToNumber E v =
     (case v of
        Num r \<Rightarrow> Some r
      | Null \<Rightarrow> Some 0
      | Bool b \<Rightarrow> Some (if b then 1 else 0)
      | Undefined \<Rightarrow> None
      | NaN \<Rightarrow> None
      | Str s \<Rightarrow> StringToNumber E s
      | _ \<Rightarrow> StringToNumber E (ToString E v))"

definition computeAriScore_value :: "env \<Rightarrow> jsval \<Rightarrow> js_error + jsval" where
  "computeAriScore_value E a =
     try_bind (get_prop a ''eslint'') (\<lambda>eslint.
     try_bind (get_prop a ''npmAudit'') (\<lambda>npmAudit.
     try_bind (get_prop eslint ''errorCount'') (\<lambda>errors.
     try_bind (get_prop eslint ''warningCount'') (\<lambda>warnings.
     try_bind (get_prop npmAudit ''criticalVulnerabilities'') (\<lambda>critical.
     try_bind (get_prop npmAudit ''highVulnerabilities'') (\<lambda>high.
       let metrics_obj =
             Obj [(''eslint_errors'', errors), (''eslint_warnnings'', warnings),
                  (''critical_vulns'', critical), (''high_vulns'', high)]
       in case (ToNumber E errors, ToNumber E warnings, ToNumber E critical, ToNumber E high) of
            (Some e, Some w, Some c, Some h) \<Rightarrow>
              (let r = computeAriScore (counts e w c h)
               in Inr (Obj [(''ari_score'', Num (of_int (ari_score r))),
                            (''status'', Str (status r)),
                            (''metrics'', metrics_obj)]))
          | _ \<Rightarrow>
              Inr (Obj [(''ari_score'', NaN),
                        (''status'', Str ''High Risk''),
                        (''metrics'', metrics_obj)])))))))"

section \<open>The orchestrator: \<^verbatim>\<open>validateRepoByCloning\<close>\<close>

definition SHALLOW_DEPTH :: nat where
  "SHALLOW_DEPTH = 1"

definition MAX_CLONE_SIZE_BYTES :: int where
  "MAX_CLONE_SIZE_BYTES = 50 * 1024 * 1024"

definition apos :: string where
  "apos = [CHR 0x27]"

definition dquote :: string where
  "dquote = [CHR 0x22]"

text \<open>
  The names the module binds: its four \<^verbatim>\<open>require\<close>s, its two constants and its six
  functions. A module and a function are opaque values here. Reading any other name
  that is not a global of Node raises a ReferenceError, at the moment the name is
  evaluated; neither \<^verbatim>\<open>generateLLMExplanation\<close> nor \<^verbatim>\<open>existingResult\<close> is a global.
\<close>

definition module_bindings :: "(string \<times> jsval) list" where
  "module_bindings =
     [(''exec'', Fun ''exec''),
      (''fs'', Fun ''fs/promises''),
      (''fs_sync'', Fun ''fs''),
      (''path'', Fun ''path''),
      (''SHALLOW_DEPTH'', Num 1),
      (''MAX_CLONE_SIZE_BYTES'', Num (50 * 1024 * 1024)),
      (''execCommand'', Fun ''execCommand''),
      (''runESLintAnalysis'', Fun ''runESLintAnalysis''),
      (''runNpmAudit'', Fun ''runNpmAudit''),
      (''validateRepoByCloning'', Fun ''validateRepoByCloning''),
      (''computeAriScore'', Fun ''computeAriScore''),
      (''runExample'', Fun ''runExample'')]"

definition lookup_identifier :: "string \<Rightarrow> js_error + jsval" where
  "lookup_identifier name =
     (case map_of module_bindings name of
        Some v \<Rightarrow> Inr v
      | None \<Rightarrow> Inl (mk_error ''ReferenceError'' (name @ '' is not defined'')))"

text \<open>
  An object literal: properties are defined in order, a later definition of a key
  replaces the value of the earlier one. A spread \<^verbatim>\<open>...v\<close> contributes the properties
  of an object and nothing for \<^verbatim>\<open>undefined\<close>, \<^verbatim>\<open>null\<close>, numbers, booleans and
  functions; the program spreads nothing else.
\<close>

fun define_prop :: "(string \<times> jsval) list \<Rightarrow> string \<times> jsval \<Rightarrow> (string \<times> jsval) list" where
  "define_prop [] (k, v) = [(k, v)]"
| "define_prop ((k', v') # kvs) (k, v) =
     (if k' = k then (k, v) # kvs else (k', v') # define_prop kvs (k, v))"

definition object_literal :: "(string \<times> jsval) list \<Rightarrow> jsval" where
  "object_literal entries = Obj (foldl define_prop [] entries)"

definition spread :: "jsval \<Rightarrow> (string \<times> jsval) list" where
  "spread v = (case v of Obj kvs \<Rightarrow> kvs | _ \<Rightarrow> [])"

text \<open>The two numbers the messages print.\<close>

definition show_int :: "int \<Rightarrow> string" where
  "show_int i = (if i < 0 then ''-'' @ dec (nat (- i)) else dec (nat i))"

text \<open>
  \<^verbatim>\<open>x.toFixed(2)\<close> for a magnitude below \<open>10 ^ 21\<close>: the nearest hundredth, a tie
  going away from zero.
\<close>

definition toFixed2 :: "rat \<Rightarrow> string" where
  "toFixed2 x =
     (let n = nat \<lfloor>\<bar>x\<bar> * 100 + 1 / 2\<rfloor>
      in (if x < 0 then ''-'' else []) @ dec (n div 100) @ ''.'' @
         [digit_char (n div 10 mod 10), digit_char (n mod 10)])"

definition size_message :: "int option \<Rightarrow> string" where
  "size_message actualSizeBytes =
     ''Clone Failed: Repository size ('' @
     (case actualSizeBytes of
        None \<Rightarrow> ''NaN''
      | Some n \<Rightarrow> toFixed2 (of_int n / (1024 * 1024))) @
     '' MB) exceeds the '' @ show_int (MAX_CLONE_SIZE_BYTES div (1024 * 1024)) @ '' MB limit.''"

definition valid_message :: "int option \<Rightarrow> string" where
  "valid_message actualSizeBytes =
     apos @ ''package.json'' @ apos @ '' found and is valid JSON. Clone size: '' @
     (case actualSizeBytes of
        None \<Rightarrow> ''NaN''
      | Some n \<Rightarrow> show_int (Math_round (of_int n / 1024))) @ '' KB.''"

definition rejection :: "string \<Rightarrow> jsval" where
  "rejection msg = Obj [(''isValid'', Bool False), (''message'', Str msg)]"

text \<open>The \<^verbatim>\<open>finally\<close> block: the removal, inside its own \<^verbatim>\<open>try\<close>.\<close>

definition cleanup :: "env \<Rightarrow> string \<Rightarrow> unit io" where
  "cleanup E tempDir =
     io_catch
       (io_bind (fs_rm E tempDir) (\<lambda>_.
        emit (Console ''log'' [''Cleaned up temp directory: '' @ tempDir])))
       (\<lambda>cleanupError.
          emit (Console ''error''
                  [''Warning: Failed to clean up temp directory '' @ tempDir @ '':'',
                   err_message cleanupError]))"

text \<open>The installation of the dependencies, whose failure is only logged.\<close>

definition installDependencies :: "env \<Rightarrow> string \<Rightarrow> unit io" where
  "installDependencies E tempDir =
     io_bind (emit (Console ''log'' [''Installing dependencies in '' @ tempDir @ ''...''])) (\<lambda>_.
     io_catch
       (io_bind (execCommand E (''cd '' @ dquote @ tempDir @ dquote @
                                '' && npm install --ignore-scripts'')) (\<lambda>_.
        emit (Console ''log'' [''Dependencies installed.''])))
       (\<lambda>installError.
          emit (Console ''warn''
                  [''Dependency installation failed: '' @ err_message installError])))"

text \<open>The object built from the two analyzer results (lines 149 to 158).\<close>

definition mergeResults :: "jsval \<Rightarrow> jsval \<Rightarrow> js_error + jsval" where
  "mergeResults eslintResult auditResult =
     try_bind (get_prop eslintResult ''errors'') (\<lambda>errors.
     try_bind (get_prop eslintResult ''warnings'') (\<lambda>warnings.
     try_bind (get_prop auditResult ''critical'') (\<lambda>critical.
     try_bind (get_prop auditResult ''high'') (\<lambda>high.
       Inr (Obj [(''eslint'', Obj [(''errorCount'', errors), (''warningCount'', warnings)]),
                 (''npmAudit'', Obj [(''criticalVulnerabilities'', critical),
                                     (''highVulnerabilities'', high)])])))))"

text \<open>
  \<^verbatim>\<open>Promise.all\<close> over the two analyzers. Neither rejects and neither reads what the
  other writes, so the two are run one after the other; the order of their events in the
  trace is one of the interleavings.
\<close>

definition analyze :: "env \<Rightarrow> string \<Rightarrow> jsval io" where
  "analyze E tempDir =
     io_bind (installDependencies E tempDir) (\<lambda>_.
     io_bind (runESLintAnalysis E tempDir) (\<lambda>eslintResult.
     io_bind (runNpmAudit E tempDir) (\<lambda>auditResult.
       io_lift (mergeResults eslintResult auditResult))))"

text \<open>The argument of the call of \<^verbatim>\<open>generateLLMExplanation\<close> (lines 162 to 170).\<close>

definition explanationInput :: "jsval \<Rightarrow> jsval \<Rightarrow> js_error + jsval" where
  "explanationInput scoringResult staticAnalysisResults =
     try_bind (get_prop scoringResult ''ari_score'') (\<lambda>ari_score.
     try_bind (get_prop scoringResult ''status'') (\<lambda>status.
     try_bind (get_prop scoringResult ''metrics'') (\<lambda>metrics.
     try_bind (get_prop staticAnalysisResults ''eslint'') (\<lambda>eslint.
     try_bind (get_prop eslint ''failed'') (\<lambda>failed.
       Inr (Obj [(''ari_score'', ari_score),
                 (''status'', status),
                 (''metrics'', metrics),
                 (''context'', Obj [(''has_tests'', Bool False),
                                    (''eslint_failed'', js_or failed (Bool False))])]))))))"

text \<open>
  Calling the value a name evaluated to: the function of
  \<^verbatim>\<open>generateLLMExplanation.js\<close> if that is what the name holds, a TypeError otherwise.
\<close>

definition call_explanation :: "env \<Rightarrow> jsval \<Rightarrow> jsval \<Rightarrow> jsval io" where
  "call_explanation E f input =
     (if f = Fun ''generateLLMExplanation'' then generateLLMExplanation E input
      else io_throw (mk_error ''TypeError'' ''generateLLMExplanation is not a function''))"

text \<open>The object of the last \<^verbatim>\<open>return\<close> of the inner block (lines 172 to 185).\<close>

definition acceptance ::
  "int option \<Rightarrow> jsval \<Rightarrow> jsval \<Rightarrow> jsval \<Rightarrow> jsval \<Rightarrow> jsval \<Rightarrow> js_error + jsval" where
  "acceptance actualSizeBytes packageJson packageJsonValidationResult staticAnalysisResults
     scoringResult explanation =
     try_bind (get_prop scoringResult ''ari_score'') (\<lambda>ari_score.
     try_bind (get_prop scoringResult ''status'') (\<lambda>status.
     try_bind (get_prop scoringResult ''metrics'') (\<lambda>metrics.
     try_bind (lookup_identifier ''existingResult'') (\<lambda>existingResult.
       Inr (object_literal
              ([(''isValid'', Bool True),
                (''message'', Str (valid_message actualSizeBytes)),
                (''data'', packageJson)] @
               spread packageJsonValidationResult @
               [(''analysis'', staticAnalysisResults),
                (''ari_score'', ari_score),
                (''status'', status),
                (''metrics'', metrics)] @
               spread existingResult @
               [(''explanation'', explanation)]))))))"

text \<open>
  The body of the inner \<^verbatim>\<open>try\<close> block (lines 118 to 185). In the call at line 162
  the callee, the name \<^verbatim>\<open>generateLLMExplanation\<close>, is evaluated before the argument.
\<close>

definition readAndAnalyze :: "env \<Rightarrow> string \<Rightarrow> string \<Rightarrow> string \<Rightarrow> int option \<Rightarrow> jsval io" where
  "readAndAnalyze E owner repo tempDir actualSizeBytes =
     io_bind (fs_readFile E (path_join E [tempDir, ''package.json''])) (\<lambda>fileContent.
     io_bind (io_lift (JSON_parse E (trim fileContent))) (\<lambda>packageJson.
     let packageJsonValidationResult =
           Obj [(''isValid'', Bool True),
                (''message'', Str (valid_message actualSizeBytes)),
                (''data'', packageJson)]
     in
     io_bind (emit (Console ''log''
                [''Starting static analysis on '' @ owner @ ''/'' @ repo @ ''...''])) (\<lambda>_.
     io_bind (io_lift (get_prop packageJsonValidationResult ''isValid'')) (\<lambda>isValid.
     io_bind (if truthy isValid then analyze E tempDir else io_return (Obj []))
       (\<lambda>staticAnalysisResults.
     io_bind (io_lift (computeAriScore_value E staticAnalysisResults)) (\<lambda>scoringResult.
     io_bind (io_lift (lookup_identifier ''generateLLMExplanation'')) (\<lambda>f.
     io_bind (io_lift (explanationInput scoringResult staticAnalysisResults)) (\<lambda>input.
     io_bind (call_explanation E f input) (\<lambda>explanation.
       io_lift (acceptance actualSizeBytes packageJson packageJsonValidationResult
                  staticAnalysisResults scoringResult explanation))))))))))"

text \<open>The handler of the inner block.\<close>

definition readParseHandler :: "js_error \<Rightarrow> jsval io" where
  "readParseHandler readParseError =
     (if err_code readParseError = Str ''ENOENT'' then
        io_return (rejection (apos @ ''package.json'' @ apos @ '' NOT found in the repository.''))
      else
        io_return (rejection (apos @ ''package.json'' @ apos @
                              '' found but is NOT valid JSON: '' @ err_message readParseError)))"

definition sizeCommand :: "env \<Rightarrow> string \<Rightarrow> string" where
  "sizeCommand E tempDir =
     (if platform E = ''win32'' then
        ''powershell -Command '' @ dquote @ ''(Get-ChildItem -Recurse '' @ tempDir @
        '' | Measure-Object -Property Length -Sum).Sum'' @ dquote
      else ''du -sb '' @ tempDir @ '' | awk '' @ apos @ ''{print $1}'' @ apos)"

definition cloneCommand :: "string \<Rightarrow> string \<Rightarrow> string" where
  "cloneCommand repoUrl tempDir =
     ''git clone --depth '' @ dec SHALLOW_DEPTH @ '' '' @ repoUrl @ '' '' @ tempDir"

text \<open>\<^verbatim>\<open>actualSizeBytes > MAX_CLONE_SIZE_BYTES\<close>, false for \<^verbatim>\<open>NaN\<close>.\<close>

definition exceeds_limit :: "int option \<Rightarrow> bool" where
  "exceeds_limit actualSizeBytes =
     (case actualSizeBytes of None \<Rightarrow> False | Some n \<Rightarrow> n > MAX_CLONE_SIZE_BYTES)"

text \<open>The body of the outer \<^verbatim>\<open>try\<close> block (lines 92 to 199).\<close>

definition cloneAndValidate :: "env \<Rightarrow> string \<Rightarrow> string \<Rightarrow> string \<Rightarrow> string \<Rightarrow> jsval io" where
  "cloneAndValidate E owner repo tempDir repoUrl =
     io_bind (emit (Console ''log''
                [''Clonning '' @ repoUrl @ '' to '' @ tempDir @ ''... ''])) (\<lambda>_.
     io_bind (execCommand E (cloneCommand repoUrl tempDir)) (\<lambda>_.
     io_bind (execCommand E (sizeCommand E tempDir)) (\<lambda>rawSizeBytes.
     let actualSizeBytes = parseInt rawSizeBytes in
     if exceeds_limit actualSizeBytes then
       io_return (rejection (size_message actualSizeBytes))
     else
       io_catch (readAndAnalyze E owner repo tempDir actualSizeBytes) readParseHandler)))"

text \<open>
  The handler of the outer block. \<^verbatim>\<open>substring(0, 200)\<close> counts UTF-16 code units
  where \<open>take 200\<close> counts bytes; the two agree on a message of ASCII characters.
\<close>

definition gitErrorHandler :: "js_error \<Rightarrow> jsval io" where
  "gitErrorHandler gitError =
     io_return (rejection (''Clone Failed: '' @ take 200 (err_message gitError) @ ''...''))"

definition tempDir_of :: "env \<Rightarrow> string \<Rightarrow> string \<Rightarrow> string" where
  "tempDir_of E owner repo =
     path_join E [dirname E, ''temp_repos'', owner @ ''_'' @ repo @ ''_'' @ dec (now E)]"

definition repoUrl_of :: "string \<Rightarrow> string \<Rightarrow> string" where
  "repoUrl_of owner repo = ''https://github.com/'' @ owner @ ''/'' @ repo @ ''.git''"

definition validateRepoByCloning :: "env \<Rightarrow> string \<Rightarrow> string \<Rightarrow> jsval io" where
  "validateRepoByCloning E owner repo =
     (let tempDir = tempDir_of E owner repo;
          repoUrl = repoUrl_of owner repo
      in io_finally
           (io_catch (cloneAndValidate E owner repo tempDir repoUrl) gitErrorHandler)
           (cleanup E tempDir))"

section \<open>The situations the properties speak of\<close>

text \<open>The lint tool cannot complete: loading it, configuring it or running it throws.\<close>

definition lint_tool_fails :: "env \<Rightarrow> string \<Rightarrow> bool" where
  "lint_tool_fails E repoDir =
     (require_eslint E \<noteq> None \<or> new_ESLint E repoDir \<noteq> None \<or> isl (lintFiles E repoDir))"

text \<open>
  The audit fails: the command's promise rejects, or \<^verbatim>\<open>JSON.parse\<close> throws on its
  output, or the parsed value is \<^verbatim>\<open>null\<close>, whose \<^verbatim>\<open>metadata\<close> cannot be read.
\<close>

definition audit_failure :: "env \<Rightarrow> string \<Rightarrow> bool" where
  "audit_failure E repoDir =
     (case exec_outcome E (auditCommand repoDir) of
        Inl e \<Rightarrow> True
      | Inr printed \<Rightarrow>
          (case JSON_parse E printed of
             Inl e \<Rightarrow> True
           | Inr jsonOutput \<Rightarrow> nullish jsonOutput))"

text \<open>
  No explanation can be had: the credential is absent, or the request was posted and
  \<^verbatim>\<open>fetch\<close> rejected, or the status was not ok, or the body was not JSON, or the body
  carried no message content, or the content did not parse.
\<close>

definition llm_unavailable :: "env \<Rightarrow> jsval \<Rightarrow> bool" where
  "llm_unavailable E input =
     (case OPENAI_API_KEY E of
        None \<Rightarrow> True
      | Some key \<Rightarrow>
          key = [] \<or>
          (case build_request key input of
             Inl e \<Rightarrow> False
           | Inr req \<Rightarrow>
               (case fetch E req of
                  Inl e \<Rightarrow> True
                | Inr response \<Rightarrow>
                    \<not> ok response \<or>
                    (case json_body response of
                       Inl e \<Rightarrow> True
                     | Inr data \<Rightarrow>
                         (case message_content data of
                            Inl e \<Rightarrow> True
                          | Inr content \<Rightarrow>
                              \<not> truthy content \<or> isl (JSON_parse_value E content))))))"


text \<open>The clone and the measurement resolve, and the measured size is over the limit.\<close>

definition size_exceeded :: "env \<Rightarrow> string \<Rightarrow> string \<Rightarrow> bool" where
  "size_exceeded E owner repo =
     (let tempDir = tempDir_of E owner repo
      in \<not> isl (exec_outcome E (cloneCommand (repoUrl_of owner repo) tempDir)) \<and>
         (case exec_outcome E (sizeCommand E tempDir) of
            Inl e \<Rightarrow> False
          | Inr rawSizeBytes \<Rightarrow> exceeds_limit (parseInt rawSizeBytes)))"

text \<open>
  The clone and the measurement resolve, the size is within the limit,
  \<^verbatim>\<open>package.json\<close> is read and parses.
\<close>

definition manifest_valid :: "env \<Rightarrow> string \<Rightarrow> string \<Rightarrow> bool" where
  "manifest_valid E owner repo =
     (let tempDir = tempDir_of E owner repo
      in \<not> isl (exec_outcome E (cloneCommand (repoUrl_of owner repo) tempDir)) \<and>
         (case exec_outcome E (sizeCommand E tempDir) of
            Inl e \<Rightarrow> False
          | Inr rawSizeBytes \<Rightarrow>
              \<not> exceeds_limit (parseInt rawSizeBytes) \<and>
              (case readFile E (path_join E [tempDir, ''package.json'']) of
                 Inl e \<Rightarrow> False
               | Inr fileContent \<Rightarrow> \<not> isl (JSON_parse E (trim fileContent)))))"

section \<open>Sample runs\<close>

text \<open>
  A concrete platform on which every external step succeeds: the clone, a measured
  size of 204800 bytes, a \<^verbatim>\<open>package.json\<close> that parses, the installation, two linted
  files with 3 errors and 6 warnings in all, an audit reporting 1 critical and 2 high
  vulnerabilities (and so leaving with exit code 1), and the removal. \<open>sample_parse\<close> answers as \<^verbatim>\<open>JSON.parse\<close> does
  on the texts the samples use. The other samples change one answer each.
\<close>

definition posix_join :: "string list \<Rightarrow> string" where
  "posix_join parts =
     (case parts of [] \<Rightarrow> ''.'' | p # ps \<Rightarrow> foldl (\<lambda>a b. a @ ''/'' @ b) p ps)"

definition resolved_with :: "string \<Rightarrow> exec_callback" where
  "resolved_with printed = \<lparr>cb_error = None, cb_stdout = printed, cb_stderr = []\<rparr>"

definition sample_audit_output :: string where
  \<open>sample_audit_output = ''{"metadata":{"vulnerabilities":{"critical":1,"high":2}}}''\<close>

definition sample_package_json :: string where
  \<open>sample_package_json = ''{"name":"demo"}''\<close>

definition sample_partial_answer :: string where
  \<open>sample_partial_answer = ''{"summary":"ok"}''\<close>

definition sample_full_answer :: string where
  \<open>sample_full_answer =
     ''{"summary":"ok","top_risks":[],"why_score_is_low_or_high":[],"improvement_suggestions":["lint"]}''\<close>

definition sample_shell :: "string \<Rightarrow> exec_callback" where
  "sample_shell command =
     (if take 9 command = ''git clone'' then resolved_with []
      else if take 6 command = ''du -sb'' then resolved_with ''204800''
      else if drop (length command - 16) command = ''npm audit --json'' then
        \<lparr>cb_error = Some \<lparr>code = Num 1, message = ''Command failed''\<rparr>,
         cb_stdout = sample_audit_output, cb_stderr = []\<rparr>
      else resolved_with [])"

definition sample_parse :: "string \<Rightarrow> js_error + jsval" where
  "sample_parse s =
     (if s = sample_package_json then Inr (Obj [(''name'', Str ''demo'')])
      else if s = sample_audit_output then
        Inr (Obj [(''metadata'',
                   Obj [(''vulnerabilities'', Obj [(''critical'', Num 1), (''high'', Num 2)])])])
      else if s = sample_partial_answer then Inr (Obj [(''summary'', Str ''ok'')])
      else if s = sample_full_answer then
        Inr (Obj [(''summary'', Str ''ok''),
                  (''top_risks'', Arr []),
                  (''why_score_is_low_or_high'', Arr []),
                  (''improvement_suggestions'', Arr [Str ''lint''])])
      else Inl (mk_error ''SyntaxError'' ''Unexpected token''))"

definition sample_env :: env where
  "sample_env =
     \<lparr>dirname = ''/srv/ari'',
      now = 1700000000000,
      platform = ''linux'',
      path_join = posix_join,
      shell = sample_shell,
      shell_disk = (\<lambda>command existed. if take 9 command = ''git clone'' then True else existed),
      readFile = (\<lambda>file. Inr (sample_package_json @ [CHR 0x0A])),
      rm = (\<lambda>dir. None),
      JSON_parse = sample_parse,
      ToString = (\<lambda>v. ''[object Object]''),
      StringToNumber = (\<lambda>s. None),
      require_eslint = None,
      new_ESLint = (\<lambda>dir. None),
      lintFiles = (\<lambda>dir. Inr [\<lparr>result_errorCount = 3, result_warningCount = 4\<rparr>,
                               \<lparr>result_errorCount = 0, result_warningCount = 2\<rparr>]),
      OPENAI_API_KEY = None,
      fetch = (\<lambda>req. Inl (mk_error ''FetchError'' ''network unreachable''))\<rparr>"

definition start :: world where
  "start = \<lparr>on_disk = False, trace = []\<rparr>"

text \<open>The lint tool throws on its configuration.\<close>

definition lint_failing_env :: env where
  "lint_failing_env =
     sample_env\<lparr>lintFiles := (\<lambda>dir. Inl (mk_error ''Error'' ''No ESLint configuration found''))\<rparr>"

text \<open>The audit command is not found (exit code 127), or prints something that is not JSON.\<close>

definition audit_rejecting_env :: env where
  "audit_rejecting_env =
     sample_env\<lparr>shell := (\<lambda>command.
        \<lparr>cb_error = Some \<lparr>code = Num 127, message = ''npm: not found''\<rparr>,
         cb_stdout = [], cb_stderr = ''sh: npm: not found''\<rparr>)\<rparr>"

definition audit_garbled_env :: env where
  "audit_garbled_env = sample_env\<lparr>shell := (\<lambda>command. resolved_with ''npm ERR! audit'')\<rparr>"

text \<open>The measured size is 60000000 bytes, and the removal of the directory fails.\<close>

definition oversized_env :: env where
  "oversized_env =
     sample_env\<lparr>shell := (\<lambda>command.
        if take 6 command = ''du -sb'' then resolved_with ''60000000'' else sample_shell command)\<rparr>"

definition busy_error :: js_error where
  "busy_error = \<lparr>err_name = ''Error'', err_message = ''EBUSY: resource busy or locked'',
                  err_code = Str ''EBUSY''\<rparr>"

definition oversized_stuck_env :: env where
  "oversized_stuck_env = oversized_env\<lparr>rm := (\<lambda>dir. Some busy_error)\<rparr>"

definition stuck_env :: env where
  "stuck_env = sample_env\<lparr>rm := (\<lambda>dir. Some busy_error)\<rparr>"

text \<open>The language model answers, with a message whose content is the given text.\<close>

definition answer_with :: "string \<Rightarrow> http_response" where
  "answer_with content =
     \<lparr>ok = True, http_status = 200,
      json_body = Inr (Obj [(''choices'',
                    Arr [Obj [(''message'',
                       Obj [(''role'', Str ''assistant''), (''content'', Str content)])]])])\<rparr>"

definition answering_env :: "string \<Rightarrow> env" where
  "answering_env content =
     sample_env\<lparr>OPENAI_API_KEY := Some ''sk-sample'', fetch := (\<lambda>req. Inr (answer_with content))\<rparr>"

definition keyed_env :: env where
  "keyed_env = sample_env\<lparr>OPENAI_API_KEY := Some ''sk-sample''\<rparr>"

definition sample_input :: jsval where
  "sample_input =
     Obj [(''ari_score'', Num 63),
          (''status'', Str ''Moderate Risk''),
          (''metrics'', Obj [(''eslint_errors'', Num 10), (''eslint_warnnings'', Num 8),
                             (''critical_vulns'', Num 1), (''high_vulns'', Num 2)]),
          (''context'', Obj [(''has_tests'', Bool False), (''eslint_failed'', Bool False)])]"

text \<open>The service refuses (status 429); it answers without any choice.\<close>

definition refusing_env :: env where
  "refusing_env =
     keyed_env\<lparr>fetch := (\<lambda>req. Inr \<lparr>ok = False, http_status = 429,
                                     json_body = Inr (Obj [(''error'', Str ''rate limit'')])\<rparr>)\<rparr>"

definition empty_answer_env :: env where
  "empty_answer_env =
     keyed_env\<lparr>fetch := (\<lambda>req. Inr \<lparr>ok = True, http_status = 200,
                                     json_body = Inr (Obj [(''choices'', Arr [])])\<rparr>)\<rparr>"

text \<open>
  The results a run can have, read off the answers of the platform: the two handlers'
  rejections and the size rejection. The orchestrator is proved below to return exactly
  this.
\<close>

definition clone_rejection :: "js_error \<Rightarrow> jsval" where
  "clone_rejection gitError =
     rejection (''Clone Failed: '' @ take 200 (err_message gitError) @ ''...'')"

definition manifest_rejection :: "js_error \<Rightarrow> jsval" where
  "manifest_rejection readParseError =
     (if err_code readParseError = Str ''ENOENT'' then
        rejection (apos @ ''package.json'' @ apos @ '' NOT found in the repository.'')
      else
        rejection (apos @ ''package.json'' @ apos @
                   '' found but is NOT valid JSON: '' @ err_message readParseError))"

definition verdict :: "env \<Rightarrow> string \<Rightarrow> string \<Rightarrow> jsval" where
  "verdict E tempDir repoUrl =
     (case exec_outcome E (cloneCommand repoUrl tempDir) of
        Inl e \<Rightarrow> clone_rejection e
      | Inr cloned \<Rightarrow>
          (case exec_outcome E (sizeCommand E tempDir) of
             Inl e \<Rightarrow> clone_rejection e
           | Inr rawSizeBytes \<Rightarrow>
               if exceeds_limit (parseInt rawSizeBytes) then
                 rejection (size_message (parseInt rawSizeBytes))
               else
                 (case readFile E (path_join E [tempDir, ''package.json'']) of
                    Inl e \<Rightarrow> manifest_rejection e
                  | Inr fileContent \<Rightarrow>
                      (case JSON_parse E (trim fileContent) of
                         Inl e \<Rightarrow> manifest_rejection e
                       | Inr packageJson \<Rightarrow>
                           manifest_rejection
                             (mk_error ''ReferenceError''
                                ''generateLLMExplanation is not defined'')))))"

text \<open>
  What the orchestrator holds after the analysis and the scoring when the lint tool has
  failed on the sample platform: the merged analysis and the scoring result.
\<close>

definition degraded_analysis :: jsval where
  "degraded_analysis =
     Obj [(''eslint'', Obj [(''errorCount'', Num 20), (''warningCount'', Num 50)]),
          (''npmAudit'', Obj [(''criticalVulnerabilities'', Num 1),
                              (''highVulnerabilities'', Num 2)])]"

definition degraded_metrics :: jsval where
  "degraded_metrics =
     Obj [(''eslint_errors'', Num 20), (''eslint_warnnings'', Num 50),
          (''critical_vulns'', Num 1), (''high_vulns'', Num 2)]"

definition degraded_scoring :: jsval where
  "degraded_scoring =
     Obj [(''ari_score'', Num 43), (''status'', Str ''High Risk''),
          (''metrics'', degraded_metrics)]"

text \<open>
  The repository's own example call, \<^verbatim>\<open>validateRepoByCloning("Anto-099-New-State",
  "ARI---Application-Readiness-Index")\<close>, on the sample platform: its temp directory, its
  clone URL, the analysis it merges, the scoring of that analysis, and everything it
  does, in order.
\<close>

definition example_dir :: string where
  "example_dir =
     ''/srv/ari/temp_repos/Anto-099-New-State_ARI---Application-Readiness-Index_1700000000000''"

definition example_url :: string where
  "example_url = ''https://github.com/Anto-099-New-State/ARI---Application-Readiness-Index.git''"

definition sample_analysis :: jsval where
  "sample_analysis =
     Obj [(''eslint'', Obj [(''errorCount'', Num 3), (''warningCount'', Num 6)]),
          (''npmAudit'', Obj [(''criticalVulnerabilities'', Num 1),
                              (''highVulnerabilities'', Num 2)])]"

definition sample_scoring :: jsval where
  "sample_scoring =
     Obj [(''ari_score'', Num 71), (''status'', Str ''Moderate Risk''),
          (''metrics'', Obj [(''eslint_errors'', Num 3), (''eslint_warnnings'', Num 6),
                             (''critical_vulns'', Num 1), (''high_vulns'', Num 2)])]"

definition example_trace :: "event list" where
  "example_trace =
     [Console ''log'' [''Clonning '' @ example_url @ '' to '' @ example_dir @ ''... ''],
      Exec (''git clone --depth 1 '' @ example_url @ '' '' @ example_dir),
      Exec (''du -sb '' @ example_dir @ '' | awk '' @ apos @ ''{print $1}'' @ apos),
      ReadFile (example_dir @ ''/package.json''),
      Console ''log''
        [''Starting static analysis on Anto-099-New-State/ARI---Application-Readiness-Index...''],
      Console ''log'' [''Installing dependencies in '' @ example_dir @ ''...''],
      Exec (''cd '' @ dquote @ example_dir @ dquote @ '' && npm install --ignore-scripts''),
      Console ''log'' [''Dependencies installed.''],
      Require ''eslint'',
      LintFiles example_dir,
      Exec (''cd '' @ example_dir @ '' && npm audit --json''),
      Remove example_dir,
      Console ''log'' [''Cleaned up temp directory: '' @ example_dir]]"

text \<open>A \<^verbatim>\<open>package.json\<close> that starts with a byte order mark.\<close>

definition marked_env :: env where
  "marked_env =
     sample_env\<lparr>readFile := (\<lambda>file.
        Inr ([CHR 0xEF, CHR 0xBB, CHR 0xBF] @ sample_package_json @ [CHR 0x0D, CHR 0x0A]))\<rparr>"

section \<open>Properties of the scoring engine\<close>

lemma floor_numeral_div:
  "\<lfloor>numeral a / numeral b :: rat\<rfloor> = numeral a div numeral b"
  using floor_divide_of_int_eq [of "numeral a" "numeral b", where ?'a = rat] by simp

lemma floor_one_div:
  "\<lfloor>1 / numeral b :: rat\<rfloor> = 1 div numeral b"
  using floor_divide_of_int_eq [of 1 "numeral b", where ?'a = rat] by simp

lemmas score_defs =
  computeAriScore_def counts_def Math_round_def WEIGHT_ESLINT_ERROR_def
  WEIGHT_ESLINT_WARNING_def WEIGHT_CRITICAL_VULN_def WEIGHT_HIGH_VULN_def STARTING_SCORE_def

lemma Math_round_clamped:
  "0 \<le> Math_round (max 0 (min 100 x)) \<and> Math_round (max 0 (min 100 x)) \<le> 100"
  unfolding Math_round_def by (auto simp: le_floor_iff floor_le_iff max_def min_def)

lemma ari_score_range:
  "0 \<le> ari_score (computeAriScore a) \<and> ari_score (computeAriScore a) \<le> 100"
  using Math_round_clamped by (simp add: computeAriScore_def Let_def)

text \<open>
  C2. For non-negative integer counts \<open>e\<close>, \<open>w\<close>, \<open>c\<close>, \<open>h\<close> the score is
  \<open>round (clamp (100 - (e * 1 + w * 0.25 + c * 15 + h * 5)))\<close>, with the clamp to
  \<open>[0, 100]\<close>; it is an integer between 0 and 100 however large the deduction
  (a million errors give 0); with all four counts 0 the score is 100 and the status
  \<^verbatim>\<open>"Low Risk"\<close>. The function is total: it has a value on every analysis.
\<close>

theorem computeAriScore_formula_and_range:
  "ari_score (computeAriScore (counts (of_nat e) (of_nat w) (of_nat c) (of_nat h))) =
     round (max 0 (min 100
       (100 - (of_nat e * 1 + of_nat w * (1 / 4) + of_nat c * 15 + of_nat h * 5) :: rat)))
   \<and> 0 \<le> ari_score (computeAriScore (counts (of_nat e) (of_nat w) (of_nat c) (of_nat h)))
   \<and> ari_score (computeAriScore (counts (of_nat e) (of_nat w) (of_nat c) (of_nat h))) \<le> 100
   \<and> ari_score (computeAriScore (counts 1000000 0 0 0)) = 0
   \<and> ari_score (computeAriScore (counts 0 0 0 0)) = 100
   \<and> status (computeAriScore (counts 0 0 0 0)) = ''Low Risk''"
proof -
  have formula:
    "ari_score (computeAriScore (counts (of_nat e) (of_nat w) (of_nat c) (of_nat h))) =
       round (max 0 (min 100
         (100 - (of_nat e * 1 + of_nat w * (1 / 4) + of_nat c * 15 + of_nat h * 5) :: rat)))"
    by (simp add: score_defs round_def Let_def)
  have huge: "ari_score (computeAriScore (counts 1000000 0 0 0)) = 0"
    by (simp add: score_defs Let_def floor_one_div)
  have clean: "computeAriScore (counts 0 0 0 0) =
      \<lparr>ari_score = 100, status = ''Low Risk'',
       metrics = \<lparr>eslint_errors = 0, eslint_warnnings = 0, critical_vulns = 0, high_vulns = 0\<rparr>\<rparr>"
    by (simp add: score_defs Let_def floor_numeral_div)
  show ?thesis
    using formula huge ari_score_range [of "counts (of_nat e) (of_nat w) (of_nat c) (of_nat h)"]
    by (simp add: clean)
qed

text \<open>
  C3. On every analysis the status is \<^verbatim>\<open>"High Risk"\<close> exactly when the score is below
  60, \<^verbatim>\<open>"Moderate Risk"\<close> exactly when it is at least 60 and below 80, and
  \<^verbatim>\<open>"Low Risk"\<close> exactly when it is at least 80. The scores 59, 60, 79 and 80 are
  reached (by 41, 40, 21 and 20 lint errors), and 10 errors, 8 warnings, 1 critical and 2 high
  vulnerabilities give the score 63 and \<^verbatim>\<open>"Moderate Risk"\<close>.
\<close>

theorem computeAriScore_status_thresholds:
  "(status (computeAriScore a) = ''High Risk'' \<longleftrightarrow> ari_score (computeAriScore a) < 60)
   \<and> (status (computeAriScore a) = ''Moderate Risk'' \<longleftrightarrow>
        60 \<le> ari_score (computeAriScore a) \<and> ari_score (computeAriScore a) < 80)
   \<and> (status (computeAriScore a) = ''Low Risk'' \<longleftrightarrow> 80 \<le> ari_score (computeAriScore a))
   \<and> ari_score (computeAriScore (counts 41 0 0 0)) = 59
   \<and> status (computeAriScore (counts 41 0 0 0)) = ''High Risk''
   \<and> ari_score (computeAriScore (counts 40 0 0 0)) = 60
   \<and> status (computeAriScore (counts 40 0 0 0)) = ''Moderate Risk''
   \<and> ari_score (computeAriScore (counts 21 0 0 0)) = 79
   \<and> status (computeAriScore (counts 21 0 0 0)) = ''Moderate Risk''
   \<and> ari_score (computeAriScore (counts 20 0 0 0)) = 80
   \<and> status (computeAriScore (counts 20 0 0 0)) = ''Low Risk''
   \<and> ari_score (computeAriScore (counts 10 8 1 2)) = 63
   \<and> status (computeAriScore (counts 10 8 1 2)) = ''Moderate Risk''"
proof -
  have high: "status (computeAriScore a) = ''High Risk'' \<longleftrightarrow> ari_score (computeAriScore a) < 60"
    by (simp add: computeAriScore_def Let_def)
  have moderate: "status (computeAriScore a) = ''Moderate Risk'' \<longleftrightarrow>
      60 \<le> ari_score (computeAriScore a) \<and> ari_score (computeAriScore a) < 80"
    by (simp add: computeAriScore_def Let_def)
  have low: "status (computeAriScore a) = ''Low Risk'' \<longleftrightarrow> 80 \<le> ari_score (computeAriScore a)"
    by (simp add: computeAriScore_def Let_def)
  have s59: "ari_score (computeAriScore (counts 41 0 0 0)) = 59"
    and s60: "ari_score (computeAriScore (counts 40 0 0 0)) = 60"
    and s79: "ari_score (computeAriScore (counts 21 0 0 0)) = 79"
    and s80: "ari_score (computeAriScore (counts 20 0 0 0)) = 80"
    and s63: "ari_score (computeAriScore (counts 10 8 1 2)) = 63"
    by (simp_all add: score_defs Let_def floor_numeral_div)
  have t59: "status (computeAriScore (counts 41 0 0 0)) = ''High Risk''"
    and t60: "status (computeAriScore (counts 40 0 0 0)) = ''Moderate Risk''"
    and t79: "status (computeAriScore (counts 21 0 0 0)) = ''Moderate Risk''"
    and t80: "status (computeAriScore (counts 20 0 0 0)) = ''Low Risk''"
    and t63: "status (computeAriScore (counts 10 8 1 2)) = ''Moderate Risk''"
    by (simp_all add: score_defs Let_def floor_numeral_div)
  from high moderate low s59 s60 s79 s80 s63 t59 t60 t79 t80 t63 show ?thesis
    by blast
qed

section \<open>Properties of the analyzers\<close>

lemmas io_defs =
  io_bind_def io_catch_def io_return_def io_lift_def io_throw_def emit_def io_finally_def

text \<open>The rules that evaluate \<open>trim\<close> on a given string.\<close>

lemmas trim_eval = trim_def drop_prefixes.simps prefix_length_def white_space_def

lemma trim_Nil: "trim [] = []"
  by (simp add: trim_eval)

lemma trim_samples:
  "trim ''204800'' = ''204800''"
  "trim ''60000000'' = ''60000000''"
  "trim ''npm ERR! audit'' = ''npm ERR! audit''"
  "trim (sample_package_json @ [CHR 0x0A]) = sample_package_json"
  "trim sample_audit_output = sample_audit_output"
  by (simp_all add: trim_eval sample_package_json_def sample_audit_output_def)

text \<open>A byte order mark before the text and white space after it are both taken off.\<close>

lemma trim_byte_order_mark:
  "trim (CHR 0xEF # CHR 0xBB # CHR 0xBF # sample_package_json @ [CHR 0x0D, CHR 0x0A]) =
     sample_package_json"
  by (simp add: trim_eval sample_package_json_def)

lemma sample_parse_facts:
  "sample_parse sample_package_json = Inr (Obj [(''name'', Str ''demo'')])"
  "sample_parse sample_audit_output =
     Inr (Obj [(''metadata'',
                Obj [(''vulnerabilities'', Obj [(''critical'', Num 1), (''high'', Num 2)])])])"
  "sample_parse ''npm ERR! audit'' = Inl (mk_error ''SyntaxError'' ''Unexpected token'')"
  by (simp_all add: sample_parse_def sample_package_json_def sample_audit_output_def
        sample_partial_answer_def sample_full_answer_def)

lemmas sample_env_defs =
  sample_env_def sample_shell_def resolved_with_def posix_join_def start_def

lemma eslint_try_throws_iff:
  "isl (fst (eslint_try E repoDir w)) \<longleftrightarrow> lint_tool_fails E repoDir"
  by (auto simp: eslint_try_def lint_tool_fails_def io_defs require_eslint_io_def
        lintFiles_io_def option_throw_def split: option.splits sum.splits prod.splits)

lemma runESLintAnalysis_penalty:
  assumes "lint_tool_fails E repoDir"
  shows "fst (runESLintAnalysis E repoDir w) =
           Inr (Obj [(''errors'', Num 20), (''warnings'', Num 50), (''failed'', Bool True)])"
  using assms
  by (auto simp: runESLintAnalysis_def eslint_try_def lint_tool_fails_def io_defs
        require_eslint_io_def lintFiles_io_def option_throw_def
        split: option.splits sum.splits prod.splits)

lemma runESLintAnalysis_counts:
  assumes "\<not> lint_tool_fails E repoDir"
  shows "\<exists>results. lintFiles E repoDir = Inr results \<and>
           fst (runESLintAnalysis E repoDir w) =
             Inr (Obj [(''errors'', Num (fst (sum_counts results 0 0))),
                       (''warnings'', Num (snd (sum_counts results 0 0)))])"
  using assms
  by (auto simp: runESLintAnalysis_def eslint_try_def lint_tool_fails_def io_defs
        require_eslint_io_def lintFiles_io_def option_throw_def
        split: option.splits sum.splits prod.splits)

text \<open>
  C4. When the lint tool cannot complete, whatever it threw and at whichever step,
  \<^verbatim>\<open>runESLintAnalysis\<close> returns normally, and what it returns is exactly
  \<^verbatim>\<open>{errors: 20, warnings: 50, failed: true}\<close>.
\<close>

theorem runESLintAnalysis_failure_policy:
  assumes "lint_tool_fails E repoDir"
  shows "fst (runESLintAnalysis E repoDir w) =
           Inr (Obj [(''errors'', Num 20), (''warnings'', Num 50), (''failed'', Bool True)])"
  using assms by (rule runESLintAnalysis_penalty)

theorem runESLintAnalysis_failure_policy_witness:
  "lint_tool_fails lint_failing_env ''/srv/ari/temp_repos/octo_demo_1'' \<and>
   fst (runESLintAnalysis lint_failing_env ''/srv/ari/temp_repos/octo_demo_1'' start) =
     Inr (Obj [(''errors'', Num 20), (''warnings'', Num 50), (''failed'', Bool True)])"
proof -
  have fails: "lint_tool_fails lint_failing_env ''/srv/ari/temp_repos/octo_demo_1''"
    by (simp add: lint_tool_fails_def lint_failing_env_def sample_env_def)
  from fails runESLintAnalysis_failure_policy [OF fails, of start] show ?thesis
    by simp
qed

lemma get_prop_isl: "isl (get_prop v k) \<longleftrightarrow> nullish v"
  by (cases v) (simp_all add: nullish_def)

lemma get_prop_Inl_nullish: "get_prop v k = Inl e \<Longrightarrow> nullish v"
  using get_prop_isl [of v k] by simp

lemma truthy_not_nullish: "truthy v \<Longrightarrow> \<not> nullish v"
  by (cases v) (simp_all add: nullish_def)

lemma get_prop_truthy: "truthy v \<Longrightarrow> get_prop v k \<noteq> Inl e"
  using get_prop_Inl_nullish truthy_not_nullish by blast

lemma audit_summary_throws: "isl (audit_summary j) \<longleftrightarrow> nullish j"
proof (cases "nullish j")
  case True
  then show ?thesis
    by (auto simp: audit_summary_def try_bind_def nullish_def)
next
  case False
  then obtain m where m: "get_prop j ''metadata'' = Inr m"
    using get_prop_isl [of j "''metadata''"] by (cases "get_prop j ''metadata''") auto
  have "\<not> isl (opt_chain m (\<lambda>m. get_prop m ''vulnerabilities''))"
    by (simp add: opt_chain_def get_prop_isl)
  with False m show ?thesis
    by (simp add: audit_summary_def try_bind_def)
qed

text \<open>The \<^verbatim>\<open>try\<close> block of the audit is left by an exception exactly when the audit fails.\<close>

lemma audit_try_thrown:
  "fst (fst (audit_try E (auditCommand repoDir) c0 h0 w)) \<noteq> None \<longleftrightarrow> audit_failure E repoDir"
proof (cases "exec_outcome E (auditCommand repoDir)")
  case (Inl e)
  then show ?thesis
    by (simp add: audit_try_def audit_failure_def execCommand_def)
next
  case (Inr printed)
  note out = this
  show ?thesis
  proof (cases "JSON_parse E printed")
    case (Inl e)
    with out show ?thesis
      by (simp add: audit_try_def audit_failure_def execCommand_def)
  next
    case (Inr j)
    note parsed = this
    show ?thesis
    proof (cases "audit_summary j")
      case (Inl e)
      then have "nullish j" using audit_summary_throws [of j] by simp
      with out parsed Inl show ?thesis
        by (simp add: audit_try_def audit_failure_def execCommand_def)
    next
      case (Inr summary)
      then have nn: "\<not> nullish j" using audit_summary_throws [of j] by auto
      show ?thesis
      proof (cases "truthy summary")
        case True
        then obtain c h where
          "get_prop summary ''critical'' = Inr c" "get_prop summary ''high'' = Inr h"
          using get_prop_truthy [of summary] by (metis sum.exhaust)
        with out parsed Inr nn True show ?thesis
          by (simp add: audit_try_def audit_failure_def execCommand_def Let_def)
      next
        case False
        with out parsed Inr nn show ?thesis
          by (simp add: audit_try_def audit_failure_def execCommand_def)
      qed
    qed
  qed
qed

text \<open>An exception leaves the two variables as they were before the block.\<close>

lemma audit_try_thrown_keeps:
  assumes "audit_try E cmd c0 h0 w = ((Some e, c, h), w')"
  shows "c = c0 \<and> h = h0"
  using assms get_prop_truthy
  by (auto simp: audit_try_def execCommand_def Let_def split: sum.splits prod.splits if_splits)

lemma runNpmAudit_returns:
  "\<exists>c h. fst (runNpmAudit E repoDir w) = Inr (Obj [(''critical'', c), (''high'', h)])"
  by (auto simp: runNpmAudit_def Let_def split: prod.splits)

text \<open>
  C5. When the audit fails, whether the command could not run or its output could not be
  parsed, and whatever the error, \<^verbatim>\<open>runNpmAudit\<close> returns normally, and what it returns is
  exactly \<^verbatim>\<open>{critical: 0, high: 0}\<close>.
\<close>

theorem runNpmAudit_failure_policy:
  assumes "audit_failure E repoDir"
  shows "fst (runNpmAudit E repoDir w) = Inr (Obj [(''critical'', Num 0), (''high'', Num 0)])"
proof -
  obtain t c h w1 where
    run: "audit_try E (auditCommand repoDir) (Num 0) (Num 0) w = ((t, c, h), w1)"
    by (metis prod.exhaust)
  with assms have "t \<noteq> None"
    using audit_try_thrown [of E repoDir "Num 0" "Num 0" w] by simp
  then obtain e where "t = Some e" by auto
  with run have "c = Num 0 \<and> h = Num 0"
    using audit_try_thrown_keeps by blast
  with run show ?thesis
    by (simp add: runNpmAudit_def Let_def)
qed

theorem runNpmAudit_failure_policy_witness:
  "audit_failure audit_rejecting_env ''/srv/ari/temp_repos/octo_demo_1'' \<and>
   fst (runNpmAudit audit_rejecting_env ''/srv/ari/temp_repos/octo_demo_1'' start) =
     Inr (Obj [(''critical'', Num 0), (''high'', Num 0)]) \<and>
   audit_failure audit_garbled_env ''/srv/ari/temp_repos/octo_demo_1'' \<and>
   fst (runNpmAudit audit_garbled_env ''/srv/ari/temp_repos/octo_demo_1'' start) =
     Inr (Obj [(''critical'', Num 0), (''high'', Num 0)])"
proof -
  have rejects: "audit_failure audit_rejecting_env ''/srv/ari/temp_repos/octo_demo_1''"
    by (simp add: audit_failure_def audit_rejecting_env_def sample_env_def exec_outcome_def)
  have garbled: "audit_failure audit_garbled_env ''/srv/ari/temp_repos/octo_demo_1''"
    by (simp add: audit_failure_def audit_garbled_env_def sample_env_def exec_outcome_def
          resolved_with_def trim_samples sample_parse_facts)
  from rejects garbled
    runNpmAudit_failure_policy [OF rejects, of start]
    runNpmAudit_failure_policy [OF garbled, of start]
  show ?thesis by simp
qed

section \<open>Properties of the explanation generator\<close>


text \<open>The outcome of the \<^verbatim>\<open>try\<close> block, read off the answers of the platform.\<close>

lemma llm_try_outcome:
  "fst (llm_try E req w) =
     (case fetch E req of
        Inl e \<Rightarrow> Inl e
      | Inr response \<Rightarrow>
          if \<not> ok response then Inr Null
          else (case json_body response of
                  Inl e \<Rightarrow> Inl e
                | Inr data \<Rightarrow>
                    (case message_content data of
                       Inl e \<Rightarrow> Inl e
                     | Inr content \<Rightarrow>
                         if \<not> truthy content then Inr Null
                         else JSON_parse_value E content)))"
  by (simp add: llm_try_def fetch_io_def io_defs split: sum.splits)

text \<open>Once the request is built, whatever the block throws becomes \<^verbatim>\<open>null\<close>.\<close>

lemma generateLLMExplanation_outcome:
  assumes "OPENAI_API_KEY E = Some key" and "key \<noteq> []"
    and "build_request key input = Inr req"
  shows "fst (generateLLMExplanation E input w) =
           (case fst (llm_try E req w) of Inl e \<Rightarrow> Inr Null | Inr v \<Rightarrow> Inr v)"
  using assms
  by (simp add: generateLLMExplanation_def io_defs split: sum.splits prod.splits)

lemma generateLLMExplanation_skipped:
  assumes "OPENAI_API_KEY E = None \<or> OPENAI_API_KEY E = Some []"
  shows "fst (generateLLMExplanation E input w) = Inr Null"
  using assms by (auto simp: generateLLMExplanation_def llm_skipped_def io_defs)

lemma generateLLMExplanation_returns:
  assumes "OPENAI_API_KEY E = Some key" and "build_request key input = Inr req"
  shows "\<exists>v. fst (generateLLMExplanation E input w) = Inr v"
proof (cases "key = []")
  case True
  with assms(1) show ?thesis using generateLLMExplanation_skipped by blast
next
  case False
  with assms show ?thesis
    by (simp add: generateLLMExplanation_outcome split: sum.splits)
qed

text \<open>
  The request is built from every argument that has an object for its metrics and an
  object or nothing for its context, as the argument the orchestrator builds has.
\<close>

lemma build_request_succeeds:
  assumes "get_prop input ''metrics'' = Inr m" and "\<not> nullish m"
    and "get_prop input ''context'' = Inr c" and "c \<noteq> Null"
  shows "\<exists>req. build_request key input = Inr req"
proof -
  have input: "\<not> nullish input"
    using assms(1) get_prop_isl [of input "''metrics''"] by auto
  have ctx: "\<not> nullish (if c = Undefined then Obj [] else c)"
    using assms(4) by (simp add: nullish_def)
  have rd: "\<And>v k. \<not> nullish v \<Longrightarrow> \<exists>x. get_prop v k = Inr x"
    using get_prop_isl by (metis sum.collapse(2))
  obtain a where a: "get_prop input ''ari_score'' = Inr a" using rd [OF input] by blast
  obtain s where s: "get_prop input ''status'' = Inr s" using rd [OF input] by blast
  obtain e1 where e1: "get_prop m ''eslint_errors'' = Inr e1" using rd [OF assms(2)] by blast
  obtain e2 where e2: "get_prop m ''eslint_warnnings'' = Inr e2" using rd [OF assms(2)] by blast
  obtain e3 where e3: "get_prop m ''critical_vulns'' = Inr e3" using rd [OF assms(2)] by blast
  obtain e4 where e4: "get_prop m ''high_vulns'' = Inr e4" using rd [OF assms(2)] by blast
  obtain t where t: "get_prop (if c = Undefined then Obj [] else c) ''has_tests'' = Inr t"
    using rd [OF ctx] by blast
  obtain f where f: "get_prop (if c = Undefined then Obj [] else c) ''eslint_failed'' = Inr f"
    using rd [OF ctx] by blast
  show ?thesis
    using a s assms(1) assms(3) e1 e2 e3 e4 t f
    by (simp add: build_request_def try_bind_def Let_def)
qed

text \<open>
  C8. Whenever no explanation can be had (the credential is absent; or the request was
  posted and \<^verbatim>\<open>fetch\<close> rejected, or the status was not ok, or the body was not JSON, or it
  carried no message content, or the content did not parse), \<^verbatim>\<open>generateLLMExplanation\<close>
  returns normally, and what it returns is \<^verbatim>\<open>null\<close>.
\<close>

theorem generateLLMExplanation_null_on_failure:
  assumes "llm_unavailable E input"
  shows "fst (generateLLMExplanation E input w) = Inr Null"
proof (cases "OPENAI_API_KEY E = None \<or> OPENAI_API_KEY E = Some []")
  case True
  then show ?thesis by (rule generateLLMExplanation_skipped)
next
  case False
  then obtain key where key: "OPENAI_API_KEY E = Some key" "key \<noteq> []"
    by auto
  with assms obtain req where req: "build_request key input = Inr req"
    by (cases "build_request key input") (auto simp: llm_unavailable_def)
  from assms key req have "fst (llm_try E req w) = Inr Null \<or> isl (fst (llm_try E req w))"
    by (auto simp: llm_unavailable_def llm_try_outcome split: sum.splits)
  then show ?thesis
    using generateLLMExplanation_outcome [OF key req, of w] by (auto split: sum.splits)
qed

theorem generateLLMExplanation_null_on_failure_witness:
  "llm_unavailable sample_env sample_input \<and>
   fst (generateLLMExplanation sample_env sample_input start) = Inr Null \<and>
   llm_unavailable keyed_env sample_input \<and>
   fst (generateLLMExplanation keyed_env sample_input start) = Inr Null \<and>
   llm_unavailable refusing_env sample_input \<and>
   fst (generateLLMExplanation refusing_env sample_input start) = Inr Null \<and>
   llm_unavailable empty_answer_env sample_input \<and>
   fst (generateLLMExplanation empty_answer_env sample_input start) = Inr Null \<and>
   llm_unavailable (answering_env ''I cannot help with that.'') sample_input \<and>
   fst (generateLLMExplanation (answering_env ''I cannot help with that.'') sample_input start) =
     Inr Null"
proof -
  have built: "\<exists>req. build_request ''sk-sample'' sample_input = Inr req"
    by (simp add: build_request_def sample_input_def try_bind_def)
  have no_key: "llm_unavailable sample_env sample_input"
    by (simp add: llm_unavailable_def sample_env_def)
  have no_net: "llm_unavailable keyed_env sample_input"
    using built
    by (auto simp: llm_unavailable_def keyed_env_def sample_env_def)
  have refused: "llm_unavailable refusing_env sample_input"
    using built
    by (auto simp: llm_unavailable_def refusing_env_def keyed_env_def sample_env_def)
  have empty: "llm_unavailable empty_answer_env sample_input"
    using built
    by (auto simp: llm_unavailable_def empty_answer_env_def keyed_env_def sample_env_def
          message_content_def try_bind_def opt_chain_def nullish_def)
  have prose: "llm_unavailable (answering_env ''I cannot help with that.'') sample_input"
    using built
    by (auto simp: llm_unavailable_def answering_env_def answer_with_def sample_env_def
          message_content_def try_bind_def opt_chain_def nullish_def JSON_parse_value_def
          sample_parse_def sample_package_json_def sample_audit_output_def
          sample_partial_answer_def sample_full_answer_def)
  from no_key no_net refused empty prose
    generateLLMExplanation_null_on_failure [OF no_key, of start]
    generateLLMExplanation_null_on_failure [OF no_net, of start]
    generateLLMExplanation_null_on_failure [OF refused, of start]
    generateLLMExplanation_null_on_failure [OF empty, of start]
    generateLLMExplanation_null_on_failure [OF prose, of start]
  show ?thesis by simp
qed




section \<open>Properties of the orchestrator\<close>

subsection \<open>The steps of the analysis\<close>

lemma installDependencies_returns: "\<exists>w'. installDependencies E tempDir w = (Inr (), w')"
  by (simp add: installDependencies_def execCommand_def io_defs split: sum.splits)

lemma runESLintAnalysis_shape:
  "\<exists>e wn rest w'. runESLintAnalysis E repoDir w =
     (Inr (Obj ((''errors'', e) # (''warnings'', wn) # rest)), w')"
proof (cases "lint_tool_fails E repoDir")
  case True
  from runESLintAnalysis_penalty [OF True, of w] show ?thesis
    by (metis prod.collapse)
next
  case False
  from runESLintAnalysis_counts [OF False, of w] show ?thesis
    by (metis prod.collapse)
qed

lemma runNpmAudit_shape:
  "\<exists>c h w'. runNpmAudit E repoDir w = (Inr (Obj [(''critical'', c), (''high'', h)]), w')"
  using runNpmAudit_returns [of E repoDir w] by (metis prod.collapse)

text \<open>The analysis never throws, and always builds an object of the same shape.\<close>

lemma analyze_returns:
  "\<exists>e wn c h w'. analyze E tempDir w =
     (Inr (Obj [(''eslint'', Obj [(''errorCount'', e), (''warningCount'', wn)]),
                (''npmAudit'', Obj [(''criticalVulnerabilities'', c),
                                    (''highVulnerabilities'', h)])]), w')"
proof -
  obtain w1 where i: "installDependencies E tempDir w = (Inr (), w1)"
    using installDependencies_returns by blast
  obtain e wn rest w2 where l:
    "runESLintAnalysis E tempDir w1 = (Inr (Obj ((''errors'', e) # (''warnings'', wn) # rest)), w2)"
    using runESLintAnalysis_shape by blast
  obtain c h w3 where a:
    "runNpmAudit E tempDir w2 = (Inr (Obj [(''critical'', c), (''high'', h)]), w3)"
    using runNpmAudit_shape by blast
  have "analyze E tempDir w =
     (Inr (Obj [(''eslint'', Obj [(''errorCount'', e), (''warningCount'', wn)]),
                (''npmAudit'', Obj [(''criticalVulnerabilities'', c),
                                    (''highVulnerabilities'', h)])]), w3)"
    using i l a by (simp add: analyze_def mergeResults_def try_bind_def io_defs)
  then show ?thesis by blast
qed

text \<open>On such an object the scoring does not throw.\<close>

lemma computeAriScore_value_returns:
  "\<exists>s. computeAriScore_value E
     (Obj [(''eslint'', Obj [(''errorCount'', e), (''warningCount'', wn)]),
           (''npmAudit'', Obj [(''criticalVulnerabilities'', c),
                               (''highVulnerabilities'', h)])]) = Inr s"
  by (simp add: computeAriScore_value_def try_bind_def Let_def split: option.splits)

text \<open>Neither of the two names is bound in the module.\<close>

lemma lookup_generateLLMExplanation:
  "lookup_identifier ''generateLLMExplanation'' =
     Inl (mk_error ''ReferenceError'' ''generateLLMExplanation is not defined'')"
  by (simp add: lookup_identifier_def module_bindings_def)

lemma lookup_existingResult:
  "lookup_identifier ''existingResult'' =
     Inl (mk_error ''ReferenceError'' ''existingResult is not defined'')"
  by (simp add: lookup_identifier_def module_bindings_def)

subsection \<open>The inner block\<close>

text \<open>
  The inner block never completes normally: it throws at the read, at the parse, or, when
  both succeed, at the evaluation of the name \<^verbatim>\<open>generateLLMExplanation\<close>.
\<close>

lemma readAndAnalyze_outcome:
  "fst (readAndAnalyze E owner repo tempDir actualSizeBytes w) =
     (case readFile E (path_join E [tempDir, ''package.json'']) of
        Inl e \<Rightarrow> Inl e
      | Inr fileContent \<Rightarrow>
          (case JSON_parse E (trim fileContent) of
             Inl e \<Rightarrow> Inl e
           | Inr packageJson \<Rightarrow>
               Inl (mk_error ''ReferenceError'' ''generateLLMExplanation is not defined'')))"
proof (cases "readFile E (path_join E [tempDir, ''package.json''])")
  case (Inl e)
  then show ?thesis
    by (simp add: readAndAnalyze_def fs_readFile_def io_defs)
next
  case (Inr fileContent)
  note rd = this
  show ?thesis
  proof (cases "JSON_parse E (trim fileContent)")
    case (Inl e)
    with rd show ?thesis
      by (simp add: readAndAnalyze_def fs_readFile_def io_defs)
  next
    case (Inr packageJson)
    let ?w1 = "w\<lparr>trace := trace w @ [ReadFile (path_join E [tempDir, ''package.json''])]\<rparr>"
    let ?w2 = "?w1\<lparr>trace := trace ?w1 @
        [Console ''log'' [''Starting static analysis on '' @ owner @ ''/'' @ repo @ ''...'']]\<rparr>"
    obtain e wn c h w3 where an: "analyze E tempDir ?w2 =
       (Inr (Obj [(''eslint'', Obj [(''errorCount'', e), (''warningCount'', wn)]),
                  (''npmAudit'', Obj [(''criticalVulnerabilities'', c),
                                      (''highVulnerabilities'', h)])]), w3)"
      using analyze_returns by blast
    obtain s where sc: "computeAriScore_value E
       (Obj [(''eslint'', Obj [(''errorCount'', e), (''warningCount'', wn)]),
             (''npmAudit'', Obj [(''criticalVulnerabilities'', c),
                                 (''highVulnerabilities'', h)])]) = Inr s"
      using computeAriScore_value_returns by blast
    from rd Inr an sc show ?thesis
      by (simp add: readAndAnalyze_def fs_readFile_def io_defs lookup_generateLLMExplanation)
  qed
qed

subsection \<open>The outer block and its handlers\<close>

lemma readParseHandler_run: "readParseHandler e w = (Inr (manifest_rejection e), w)"
  by (simp add: readParseHandler_def manifest_rejection_def io_defs)

lemma gitErrorHandler_run: "gitErrorHandler e w = (Inr (clone_rejection e), w)"
  by (simp add: gitErrorHandler_def clone_rejection_def io_defs)

lemma guarded_readAndAnalyze:
  "fst (io_catch (readAndAnalyze E owner repo tempDir sz) readParseHandler w) =
     Inr (case readFile E (path_join E [tempDir, ''package.json'']) of
            Inl e \<Rightarrow> manifest_rejection e
          | Inr fileContent \<Rightarrow>
              (case JSON_parse E (trim fileContent) of
                 Inl e \<Rightarrow> manifest_rejection e
               | Inr packageJson \<Rightarrow>
                   manifest_rejection
                     (mk_error ''ReferenceError'' ''generateLLMExplanation is not defined'')))"
proof -
  obtain r w1 where run: "readAndAnalyze E owner repo tempDir sz w = (r, w1)"
    by (metis prod.exhaust)
  with readAndAnalyze_outcome [of E owner repo tempDir sz w] show ?thesis
    by (auto simp: io_catch_def readParseHandler_run split: sum.splits)
qed

text \<open>The outer block with its handler always returns, and returns the verdict.\<close>

lemma guarded_cloneAndValidate:
  "fst (io_catch (cloneAndValidate E owner repo tempDir repoUrl) gitErrorHandler w) =
     Inr (verdict E tempDir repoUrl)"
proof (cases "exec_outcome E (cloneCommand repoUrl tempDir)")
  case (Inl e)
  then show ?thesis
    by (simp add: cloneAndValidate_def execCommand_def io_defs verdict_def gitErrorHandler_run)
next
  case (Inr cloned)
  note cl = this
  show ?thesis
  proof (cases "exec_outcome E (sizeCommand E tempDir)")
    case (Inl e)
    with cl show ?thesis
      by (simp add: cloneAndValidate_def execCommand_def io_defs verdict_def gitErrorHandler_run)
  next
    case (Inr rawSizeBytes)
    note sz = this
    show ?thesis
    proof (cases "exceeds_limit (parseInt rawSizeBytes)")
      case True
      with cl sz show ?thesis
        by (simp add: cloneAndValidate_def execCommand_def io_defs verdict_def)
    next
      case False
      have split_catch: "\<And>m h w0 x. fst (m w0) = Inr x \<Longrightarrow> fst (io_catch m h w0) = Inr x"
        by (auto simp: io_catch_def split: prod.splits sum.splits)
      let ?wa = "w\<lparr>trace := trace w @ [Console ''log''
                   [''Clonning '' @ repoUrl @ '' to '' @ tempDir @ ''... '']]\<rparr>"
      let ?wb = "?wa\<lparr>on_disk := shell_disk E (cloneCommand repoUrl tempDir) (on_disk ?wa),
                     trace := trace ?wa @ [Exec (cloneCommand repoUrl tempDir)]\<rparr>"
      let ?wc = "?wb\<lparr>on_disk := shell_disk E (sizeCommand E tempDir) (on_disk ?wb),
                     trace := trace ?wb @ [Exec (sizeCommand E tempDir)]\<rparr>"
      have body: "cloneAndValidate E owner repo tempDir repoUrl w =
          io_catch (readAndAnalyze E owner repo tempDir (parseInt rawSizeBytes)) readParseHandler ?wc"
        using cl sz False
        by (simp add: cloneAndValidate_def execCommand_def io_defs)
      have "fst (cloneAndValidate E owner repo tempDir repoUrl w) = Inr (verdict E tempDir repoUrl)"
        using cl sz False
        by (simp add: body guarded_readAndAnalyze verdict_def)
      then show ?thesis by (rule split_catch)
    qed
  qed
qed

subsection \<open>The cleanup\<close>

lemma cleanup_run:
  "cleanup E tempDir w =
     (Inr (),
      (case rm E tempDir of
         None \<Rightarrow>
           w\<lparr>on_disk := False,
             trace := trace w @ [Remove tempDir,
                                 Console ''log'' [''Cleaned up temp directory: '' @ tempDir]]\<rparr>
       | Some e \<Rightarrow>
           w\<lparr>trace := trace w @ [Remove tempDir,
                                 Console ''error''
                                   [''Warning: Failed to clean up temp directory '' @ tempDir @ '':'',
                                    err_message e]]\<rparr>))"
  by (simp add: cleanup_def fs_rm_def io_defs split: option.splits)

text \<open>The run is the guarded outer block followed by the cleanup, which changes no result.\<close>

lemma validateRepoByCloning_run:
  "validateRepoByCloning E owner repo w =
     (let t = io_catch (cloneAndValidate E owner repo (tempDir_of E owner repo)
                          (repoUrl_of owner repo)) gitErrorHandler w
      in (fst t, snd (cleanup E (tempDir_of E owner repo) (snd t))))"
proof -
  obtain r w1 where t:
    "io_catch (cloneAndValidate E owner repo (tempDir_of E owner repo) (repoUrl_of owner repo))
       gitErrorHandler w = (r, w1)"
    by (metis prod.exhaust)
  then show ?thesis
    by (simp add: validateRepoByCloning_def io_finally_def cleanup_run Let_def
          split: option.splits)
qed

lemma validateRepoByCloning_result:
  "fst (validateRepoByCloning E owner repo w) =
     Inr (verdict E (tempDir_of E owner repo) (repoUrl_of owner repo))"
  by (simp add: validateRepoByCloning_run guarded_cloneAndValidate Let_def)

lemma verdict_is_rejection: "\<exists>msg. verdict E tempDir repoUrl = rejection msg"
  by (auto simp: verdict_def clone_rejection_def manifest_rejection_def split: sum.splits)

lemma exec_outcome_ignores_rm: "exec_outcome (E\<lparr>rm := r\<rparr>) command = exec_outcome E command"
  by (simp add: exec_outcome_def)

lemma sizeCommand_ignores_rm: "sizeCommand (E\<lparr>rm := r\<rparr>) tempDir = sizeCommand E tempDir"
  by (simp add: sizeCommand_def)

lemma verdict_ignores_rm: "verdict (E\<lparr>rm := r\<rparr>) tempDir repoUrl = verdict E tempDir repoUrl"
  by (simp add: verdict_def exec_outcome_ignores_rm sizeCommand_ignores_rm
        cong: sum.case_cong if_cong)

lemma tempDir_ignores_rm: "tempDir_of (E\<lparr>rm := r\<rparr>) owner repo = tempDir_of E owner repo"
  by (simp add: tempDir_of_def)

text \<open>The world after a size rejection, before the cleanup.\<close>

lemma guarded_size_rejection:
  assumes "exec_outcome E (cloneCommand repoUrl tempDir) = Inr cloned"
    and "exec_outcome E (sizeCommand E tempDir) = Inr rawSizeBytes"
    and "exceeds_limit (parseInt rawSizeBytes)"
  shows "io_catch (cloneAndValidate E owner repo tempDir repoUrl) gitErrorHandler w =
           (Inr (rejection (size_message (parseInt rawSizeBytes))),
            w\<lparr>on_disk := shell_disk E (sizeCommand E tempDir)
                            (shell_disk E (cloneCommand repoUrl tempDir) (on_disk w)),
              trace := trace w @
                [Console ''log'' [''Clonning '' @ repoUrl @ '' to '' @ tempDir @ ''... ''],
                 Exec (cloneCommand repoUrl tempDir),
                 Exec (sizeCommand E tempDir)]\<rparr>)"
  using assms by (simp add: cloneAndValidate_def execCommand_def io_defs)

subsection \<open>The sample runs\<close>

lemma sample_tempDir:
  "tempDir_of sample_env owner repo =
     ''/srv/ari/temp_repos/'' @ owner @ ''_'' @ repo @ ''_1700000000000''"
  by (simp add: tempDir_of_def sample_env_defs dec.simps digit_char_def)

lemma parseInt_samples:
  "parseInt ''204800'' = Some 204800" "parseInt ''60000000'' = Some 60000000"
  by (simp_all add: parseInt_def drop_prefixes.simps prefix_length_def white_space_def
        digit_value_def Let_def)

lemma sample_clone: "exec_outcome sample_env (cloneCommand repoUrl tempDir) = Inr []"
  by (simp add: exec_outcome_def cloneCommand_def sample_env_defs trim_Nil)

lemma sample_size: "exec_outcome sample_env (sizeCommand sample_env tempDir) = Inr ''204800''"
  by (simp add: exec_outcome_def sizeCommand_def sample_env_defs trim_samples)

lemma sample_manifest:
  "readFile sample_env (path_join sample_env [d, ''package.json'']) =
     Inr (sample_package_json @ [CHR 0x0A])"
  "JSON_parse sample_env (trim (sample_package_json @ [CHR 0x0A])) =
     Inr (Obj [(''name'', Str ''demo'')])"
  by (simp_all add: sample_env_defs trim_samples sample_parse_facts)

lemma sample_manifest_valid: "manifest_valid sample_env owner repo"
  unfolding manifest_valid_def Let_def
  by (simp add: sample_clone sample_size sample_manifest parseInt_samples exceeds_limit_def
        MAX_CLONE_SIZE_BYTES_def)

text \<open>A manifest that starts with a byte order mark is read and parsed like any other.\<close>

lemma marked_manifest_valid: "manifest_valid marked_env owner repo"
proof -
  have clone: "exec_outcome marked_env (cloneCommand repoUrl tempDir) = Inr []"
    for repoUrl tempDir
    by (simp add: exec_outcome_def cloneCommand_def marked_env_def sample_env_defs trim_Nil)
  have size: "exec_outcome marked_env (sizeCommand marked_env tempDir) = Inr ''204800''"
    for tempDir
    by (simp add: exec_outcome_def sizeCommand_def marked_env_def sample_env_defs trim_samples)
  have manifest: "readFile marked_env (path_join marked_env [d, ''package.json'']) =
      Inr ([CHR 0xEF, CHR 0xBB, CHR 0xBF] @ sample_package_json @ [CHR 0x0D, CHR 0x0A])" for d
    by (simp add: marked_env_def)
  have parsed: "JSON_parse marked_env sample_package_json = Inr (Obj [(''name'', Str ''demo'')])"
    by (simp add: marked_env_def sample_env_def sample_parse_facts)
  show ?thesis
    unfolding manifest_valid_def Let_def
    by (simp add: clone size manifest trim_byte_order_mark parsed parseInt_samples
          exceeds_limit_def MAX_CLONE_SIZE_BYTES_def)
qed

lemma oversized_clone: "exec_outcome oversized_env (cloneCommand repoUrl tempDir) = Inr []"
  by (simp add: exec_outcome_def cloneCommand_def oversized_env_def sample_env_defs trim_Nil)

lemma oversized_size:
  "exec_outcome oversized_env (sizeCommand oversized_env tempDir) = Inr ''60000000''"
  by (simp add: exec_outcome_def sizeCommand_def oversized_env_def sample_env_defs trim_samples)

lemma oversized_exceeded: "size_exceeded oversized_env owner repo"
  unfolding size_exceeded_def Let_def
  by (simp add: oversized_clone oversized_size parseInt_samples exceeds_limit_def
        MAX_CLONE_SIZE_BYTES_def)

lemma size_exceeded_ignores_rm: "size_exceeded (E\<lparr>rm := r\<rparr>) owner repo = size_exceeded E owner repo"
  by (simp add: size_exceeded_def tempDir_ignores_rm exec_outcome_ignores_rm
        sizeCommand_ignores_rm Let_def cong: sum.case_cong)

text \<open>
  Every run returns, and returns a rejection; no run returns an object whose
  \<^verbatim>\<open>isValid\<close> is \<^verbatim>\<open>true\<close>. When the clone succeeds, the size is within the limit
  and \<^verbatim>\<open>package.json\<close> is read and parses, the rejection is the one the inner handler
  makes of the ReferenceError for the name \<^verbatim>\<open>generateLLMExplanation\<close>.
\<close>

lemma validateRepoByCloning_never_accepts:
  "(\<exists>msg. fst (validateRepoByCloning E owner repo w) = Inr (rejection msg))
   \<and> (\<forall>r. fst (validateRepoByCloning E owner repo w) = Inr r \<longrightarrow>
          get_prop r ''isValid'' = Inr (Bool False))
   \<and> (manifest_valid E owner repo \<longrightarrow>
        fst (validateRepoByCloning E owner repo w) =
          Inr (rejection (apos @ ''package.json'' @ apos @
                 '' found but is NOT valid JSON: generateLLMExplanation is not defined'')))"
proof -
  obtain msg where msg:
    "verdict E (tempDir_of E owner repo) (repoUrl_of owner repo) = rejection msg"
    using verdict_is_rejection by blast
  have always: "fst (validateRepoByCloning E owner repo w) = Inr (rejection msg)"
    by (simp add: validateRepoByCloning_result msg)
  have valid: "fst (validateRepoByCloning E owner repo w) =
      Inr (rejection (apos @ ''package.json'' @ apos @
             '' found but is NOT valid JSON: generateLLMExplanation is not defined''))"
    if "manifest_valid E owner repo"
    using that
    by (auto simp: validateRepoByCloning_result manifest_valid_def verdict_def Let_def
          manifest_rejection_def mk_error_def split: sum.splits)
  from always valid show ?thesis
    by (auto simp: rejection_def)
qed

subsection \<open>The repository's example call, step by step\<close>

lemma example_names:
  "tempDir_of sample_env ''Anto-099-New-State'' ''ARI---Application-Readiness-Index'' = example_dir"
  "repoUrl_of ''Anto-099-New-State'' ''ARI---Application-Readiness-Index'' = example_url"
  by (simp_all add: sample_tempDir example_dir_def repoUrl_of_def example_url_def)

lemma example_install:
  "installDependencies sample_env example_dir \<lparr>on_disk = b, trace = t\<rparr> =
     (Inr (),
      \<lparr>on_disk = b,
       trace = t @
         [Console ''log'' [''Installing dependencies in '' @ example_dir @ ''...''],
          Exec (''cd '' @ dquote @ example_dir @ dquote @ '' && npm install --ignore-scripts''),
          Console ''log'' [''Dependencies installed.'']]\<rparr>)"
  by (simp add: installDependencies_def execCommand_def exec_outcome_def io_defs
        sample_env_defs trim_Nil example_dir_def dquote_def)

lemma example_lint:
  "runESLintAnalysis sample_env d \<lparr>on_disk = b, trace = t\<rparr> =
     (Inr (Obj [(''errors'', Num 3), (''warnings'', Num 6)]),
      \<lparr>on_disk = b, trace = t @ [Require ''eslint'', LintFiles d]\<rparr>)"
  by (simp add: runESLintAnalysis_def eslint_try_def require_eslint_io_def lintFiles_io_def
        option_throw_def io_defs sample_env_def)

lemma example_audit_outcome:
  "exec_outcome sample_env (auditCommand example_dir) = Inr sample_audit_output"
  by (simp add: exec_outcome_def auditCommand_def sample_env_defs trim_samples example_dir_def)

lemma example_audit:
  "runNpmAudit sample_env example_dir \<lparr>on_disk = b, trace = t\<rparr> =
     (Inr (Obj [(''critical'', Num 1), (''high'', Num 2)]),
      \<lparr>on_disk = b, trace = t @ [Exec (''cd '' @ example_dir @ '' && npm audit --json'')]\<rparr>)"
proof -
  have parsed: "JSON_parse sample_env sample_audit_output =
      Inr (Obj [(''metadata'',
                 Obj [(''vulnerabilities'', Obj [(''critical'', Num 1), (''high'', Num 2)])])])"
    by (simp add: sample_env_def sample_parse_facts)
  have kept: "shell_disk sample_env (auditCommand example_dir) b = b"
    by (simp add: sample_env_def auditCommand_def)
  show ?thesis
    by (simp add: runNpmAudit_def audit_try_def execCommand_def example_audit_outcome parsed kept
          audit_summary_def try_bind_def opt_chain_def nullish_def js_or_def Let_def)
       (simp add: auditCommand_def)
qed

lemma example_analyze:
  "analyze sample_env example_dir \<lparr>on_disk = b, trace = t\<rparr> =
     (Inr sample_analysis,
      \<lparr>on_disk = b,
       trace = t @
         [Console ''log'' [''Installing dependencies in '' @ example_dir @ ''...''],
          Exec (''cd '' @ dquote @ example_dir @ dquote @ '' && npm install --ignore-scripts''),
          Console ''log'' [''Dependencies installed.''],
          Require ''eslint'',
          LintFiles example_dir,
          Exec (''cd '' @ example_dir @ '' && npm audit --json'')]\<rparr>)"
  by (simp add: analyze_def io_bind_def io_lift_def example_install example_lint example_audit
        mergeResults_def try_bind_def sample_analysis_def)

lemma example_scoring: "computeAriScore_value sample_env sample_analysis = Inr sample_scoring"
  by (simp add: computeAriScore_value_def sample_analysis_def sample_scoring_def try_bind_def
        ToNumber_def score_defs Let_def floor_numeral_div)

text \<open>
  The inner block on the example: it reads and parses the manifest, installs, lints and
  audits, and is then left by the ReferenceError.
\<close>

lemma example_readAndAnalyze:
  "readAndAnalyze sample_env ''Anto-099-New-State'' ''ARI---Application-Readiness-Index''
     example_dir (Some 204800) \<lparr>on_disk = b, trace = t\<rparr> =
     (Inl (mk_error ''ReferenceError'' ''generateLLMExplanation is not defined''),
      \<lparr>on_disk = b,
       trace = t @
         [ReadFile (example_dir @ ''/package.json''),
          Console ''log''
            [''Starting static analysis on Anto-099-New-State/ARI---Application-Readiness-Index...''],
          Console ''log'' [''Installing dependencies in '' @ example_dir @ ''...''],
          Exec (''cd '' @ dquote @ example_dir @ dquote @ '' && npm install --ignore-scripts''),
          Console ''log'' [''Dependencies installed.''],
          Require ''eslint'',
          LintFiles example_dir,
          Exec (''cd '' @ example_dir @ '' && npm audit --json'')]\<rparr>)"
proof -
  have path: "path_join sample_env [example_dir, ''package.json''] = example_dir @ ''/package.json''"
    by (simp add: sample_env_def posix_join_def)
  have manifest_file: "readFile sample_env (example_dir @ ''/package.json'') =
      Inr (sample_package_json @ [CHR 0x0A])"
    by (simp add: sample_env_def)
  show ?thesis
    by (simp add: readAndAnalyze_def fs_readFile_def io_bind_def io_lift_def emit_def
          path manifest_file sample_manifest example_analyze example_scoring
          lookup_generateLLMExplanation)
qed

text \<open>
  C1. The code departs from the claim at the name it fails on. On the repository's own
  example call, with the clone succeeding, the size within the limit and
  \<^verbatim>\<open>package.json\<close> parsing, the run installs, lints and audits, the scoring of the
  merged analysis has a value, and the run returns the rejection that names
  \<^verbatim>\<open>generateLLMExplanation\<close>: the module never requires the function it calls at
  line 162. The claim says the rejection names \<^verbatim>\<open>existingResult\<close>, whose spread
  at line 183 is never reached.
\<close>

theorem validateRepoByCloning_example_run:
  "manifest_valid sample_env ''Anto-099-New-State'' ''ARI---Application-Readiness-Index'' \<and>
   fst (analyze sample_env example_dir start) = Inr sample_analysis \<and>
   computeAriScore_value sample_env sample_analysis = Inr sample_scoring \<and>
   lookup_identifier ''generateLLMExplanation'' =
     Inl (mk_error ''ReferenceError'' ''generateLLMExplanation is not defined'') \<and>
   validateRepoByCloning sample_env ''Anto-099-New-State''
       ''ARI---Application-Readiness-Index'' start =
     (Inr (Obj [(''isValid'', Bool False),
                (''message'', Str (apos @ ''package.json'' @ apos @
                   '' found but is NOT valid JSON: generateLLMExplanation is not defined''))]),
      \<lparr>on_disk = False, trace = example_trace\<rparr>) \<and>
   fst (validateRepoByCloning sample_env ''Anto-099-New-State''
          ''ARI---Application-Readiness-Index'' start) \<noteq>
     Inr (Obj [(''isValid'', Bool False),
               (''message'', Str (apos @ ''package.json'' @ apos @
                  '' found but is NOT valid JSON: existingResult is not defined''))])"
proof -
  have analysed: "fst (analyze sample_env example_dir start) = Inr sample_analysis"
    by (simp add: start_def example_analyze)
  have clone_cmd: "cloneCommand example_url example_dir =
      ''git clone --depth 1 '' @ example_url @ '' '' @ example_dir"
    by (simp add: cloneCommand_def SHALLOW_DEPTH_def dec.simps digit_char_def)
  have size_cmd: "sizeCommand sample_env example_dir =
      ''du -sb '' @ example_dir @ '' | awk '' @ apos @ ''{print $1}'' @ apos"
    by (simp add: sizeCommand_def sample_env_def)
  have kept: "shell_disk sample_env (sizeCommand sample_env example_dir) c = c" for c
    unfolding size_cmd by (simp add: sample_env_def)
  have made: "shell_disk sample_env (cloneCommand example_url example_dir) c = True" for c
    unfolding clone_cmd by (simp add: sample_env_def)
  have body:
    "cloneAndValidate sample_env ''Anto-099-New-State''
         ''ARI---Application-Readiness-Index'' example_dir example_url start =
       io_catch (readAndAnalyze sample_env ''Anto-099-New-State''
                   ''ARI---Application-Readiness-Index'' example_dir (Some 204800))
         readParseHandler
         \<lparr>on_disk = True,
          trace = [Console ''log'' [''Clonning '' @ example_url @ '' to '' @ example_dir @ ''... ''],
                   Exec (cloneCommand example_url example_dir),
                   Exec (sizeCommand sample_env example_dir)]\<rparr>"
    by (simp add: cloneAndValidate_def execCommand_def io_bind_def emit_def start_def
          sample_clone sample_size parseInt_samples exceeds_limit_def MAX_CLONE_SIZE_BYTES_def
          kept made)
  have guarded:
    "io_catch (cloneAndValidate sample_env ''Anto-099-New-State''
         ''ARI---Application-Readiness-Index'' example_dir example_url) gitErrorHandler start =
       (Inr (rejection (apos @ ''package.json'' @ apos @
               '' found but is NOT valid JSON: generateLLMExplanation is not defined'')),
        \<lparr>on_disk = True, trace = take 11 example_trace\<rparr>)"
    by (simp add: io_catch_def [of "cloneAndValidate _ _ _ _ _"] body)
       (simp add: io_catch_def example_readAndAnalyze readParseHandler_run
          manifest_rejection_def mk_error_def example_trace_def clone_cmd size_cmd)
  have removable: "rm sample_env example_dir = None"
    by (simp add: sample_env_def)
  have run: "validateRepoByCloning sample_env ''Anto-099-New-State''
       ''ARI---Application-Readiness-Index'' start =
     (Inr (rejection (apos @ ''package.json'' @ apos @
             '' found but is NOT valid JSON: generateLLMExplanation is not defined'')),
      \<lparr>on_disk = False, trace = example_trace\<rparr>)"
    by (simp add: validateRepoByCloning_run example_names guarded cleanup_run removable
          example_trace_def)
  from sample_manifest_valid analysed example_scoring lookup_generateLLMExplanation run
  show ?thesis
    by (simp add: rejection_def apos_def)
qed

text \<open>
  C6, as the code has it. When the measured size is over the limit, the run returns the
  size rejection, and its whole trace is: the clone, the measurement, the removal and
  the line the removal logs. Nothing reads \<^verbatim>\<open>package.json\<close>, installs, lints or
  audits. The directory is gone after the run when the removal succeeds.
\<close>

theorem size_rejection_skips_analysis:
  assumes "size_exceeded E owner repo"
  shows "(\<exists>n. n > MAX_CLONE_SIZE_BYTES \<and>
            fst (validateRepoByCloning E owner repo w) =
              Inr (rejection (size_message (Some n))))
         \<and> trace (snd (validateRepoByCloning E owner repo w)) =
             trace w @
             [Console ''log'' [''Clonning '' @ repoUrl_of owner repo @ '' to '' @
                               tempDir_of E owner repo @ ''... ''],
              Exec (cloneCommand (repoUrl_of owner repo) (tempDir_of E owner repo)),
              Exec (sizeCommand E (tempDir_of E owner repo)),
              Remove (tempDir_of E owner repo),
              (case rm E (tempDir_of E owner repo) of
                 None \<Rightarrow>
                   Console ''log'' [''Cleaned up temp directory: '' @ tempDir_of E owner repo]
               | Some e \<Rightarrow>
                   Console ''error''
                     [''Warning: Failed to clean up temp directory '' @
                      tempDir_of E owner repo @ '':'', err_message e])]
         \<and> (rm E (tempDir_of E owner repo) = None \<longrightarrow>
              \<not> on_disk (snd (validateRepoByCloning E owner repo w)))"
proof -
  let ?d = "tempDir_of E owner repo"
  let ?u = "repoUrl_of owner repo"
  from assms obtain cloned where cl: "exec_outcome E (cloneCommand ?u ?d) = Inr cloned"
    by (cases "exec_outcome E (cloneCommand ?u ?d)") (auto simp: size_exceeded_def Let_def)
  from assms obtain raw where sz: "exec_outcome E (sizeCommand E ?d) = Inr raw"
    and ex: "exceeds_limit (parseInt raw)"
    by (cases "exec_outcome E (sizeCommand E ?d)") (auto simp: size_exceeded_def Let_def)
  from ex obtain n where n: "parseInt raw = Some n" "n > MAX_CLONE_SIZE_BYTES"
    by (cases "parseInt raw") (auto simp: exceeds_limit_def)
  note run = guarded_size_rejection [OF cl sz ex, of owner repo w]
  show ?thesis
    using n
    by (auto simp: validateRepoByCloning_run run cleanup_run Let_def split: option.splits)
qed

theorem size_rejection_skips_analysis_witness:
  "size_exceeded oversized_env ''octo'' ''demo'' \<and>
   rm oversized_env (tempDir_of oversized_env ''octo'' ''demo'') = None \<and>
   (\<exists>n. n > MAX_CLONE_SIZE_BYTES \<and>
      fst (validateRepoByCloning oversized_env ''octo'' ''demo'' start) =
        Inr (rejection (size_message (Some n)))) \<and>
   length (trace (snd (validateRepoByCloning oversized_env ''octo'' ''demo'' start))) = 5 \<and>
   \<not> on_disk (snd (validateRepoByCloning oversized_env ''octo'' ''demo'' start))"
proof -
  have ex: "size_exceeded oversized_env ''octo'' ''demo''"
    by (rule oversized_exceeded)
  have removable: "rm oversized_env (tempDir_of oversized_env ''octo'' ''demo'') = None"
    by (simp add: oversized_env_def sample_env_def)
  from ex removable size_rejection_skips_analysis [OF ex, of start]
  show ?thesis by (simp add: start_def)
qed

text \<open>
  C6, as stated, fails on its last part: with a measured size of 60000000 bytes and a
  removal that fails, the run rejects for the size and the directory is still there.
\<close>

theorem size_rejection_directory_counterexample:
  "size_exceeded oversized_stuck_env ''octo'' ''demo'' \<and>
   fst (validateRepoByCloning oversized_stuck_env ''octo'' ''demo'' start) =
     Inr (Obj [(''isValid'', Bool False),
               (''message'',
                Str ''Clone Failed: Repository size (57.22 MB) exceeds the 50 MB limit.'')]) \<and>
   on_disk (snd (validateRepoByCloning oversized_stuck_env ''octo'' ''demo'' start))"
proof -
  let ?d = "tempDir_of oversized_stuck_env ''octo'' ''demo''"
  let ?u = "repoUrl_of ''octo'' ''demo''"
  have ex: "size_exceeded oversized_stuck_env ''octo'' ''demo''"
    by (simp add: oversized_stuck_env_def size_exceeded_ignores_rm oversized_exceeded)
  have cl: "exec_outcome oversized_stuck_env (cloneCommand ?u ?d) = Inr []"
    by (simp add: oversized_stuck_env_def exec_outcome_ignores_rm oversized_clone)
  have sz: "exec_outcome oversized_stuck_env (sizeCommand oversized_stuck_env ?d) = Inr ''60000000''"
    by (simp add: oversized_stuck_env_def exec_outcome_ignores_rm sizeCommand_ignores_rm
          oversized_size)
  have over: "exceeds_limit (parseInt ''60000000'')"
    by (simp add: parseInt_samples exceeds_limit_def MAX_CLONE_SIZE_BYTES_def)
  have stuck: "rm oversized_stuck_env ?d = Some busy_error"
    by (simp add: oversized_stuck_env_def)
  have disk: "shell_disk oversized_stuck_env (sizeCommand oversized_stuck_env ?d)
      (shell_disk oversized_stuck_env (cloneCommand ?u ?d) (on_disk start))"
    by (simp add: oversized_stuck_env_def oversized_env_def sample_env_def sizeCommand_def
          cloneCommand_def)
  have msg: "size_message (Some 60000000) =
      ''Clone Failed: Repository size (57.22 MB) exceeds the 50 MB limit.''"
    by (simp add: size_message_def toFixed2_def show_int_def MAX_CLONE_SIZE_BYTES_def
          dec.simps digit_char_def Let_def floor_numeral_div)
  note run = guarded_size_rejection [OF cl sz over, of "''octo''" "''demo''" start]
  show ?thesis
    using ex disk
    by (simp add: validateRepoByCloning_run run cleanup_run stuck Let_def parseInt_samples msg
          rejection_def)
qed

text \<open>
  C7. On every run, whatever path it takes, the removal of the temp directory is the last
  thing done before the run returns, followed only by the line it logs. When the
  removal succeeds the directory is gone. When it fails, the failure is logged with its
  message, and the result of the run is the same as with any other outcome of the
  removal; the run still returns normally.
\<close>

theorem cleanup_on_every_exit_path:
  "(\<exists>before logged. trace (snd (validateRepoByCloning E owner repo w)) =
        before @ [Remove (tempDir_of E owner repo), logged])
   \<and> (rm E (tempDir_of E owner repo) = None \<longrightarrow>
        \<not> on_disk (snd (validateRepoByCloning E owner repo w)))
   \<and> (\<forall>e. rm E (tempDir_of E owner repo) = Some e \<longrightarrow>
          last (trace (snd (validateRepoByCloning E owner repo w))) =
            Console ''error''
              [''Warning: Failed to clean up temp directory '' @ tempDir_of E owner repo @ '':'',
               err_message e])
   \<and> fst (validateRepoByCloning (E\<lparr>rm := outcome\<rparr>) owner repo w) =
       fst (validateRepoByCloning E owner repo w)
   \<and> (\<exists>v. fst (validateRepoByCloning E owner repo w) = Inr v)"
proof -
  obtain r w1 where t:
    "io_catch (cloneAndValidate E owner repo (tempDir_of E owner repo) (repoUrl_of owner repo))
       gitErrorHandler w = (r, w1)"
    by (metis prod.exhaust)
  have last_step: "\<exists>before logged. trace (snd (validateRepoByCloning E owner repo w)) =
        before @ [Remove (tempDir_of E owner repo), logged]"
    by (cases "rm E (tempDir_of E owner repo)")
       (simp_all add: validateRepoByCloning_run t cleanup_run Let_def)
  have gone: "\<not> on_disk (snd (validateRepoByCloning E owner repo w))"
    if "rm E (tempDir_of E owner repo) = None"
    using that by (simp add: validateRepoByCloning_run t cleanup_run Let_def)
  have logged: "last (trace (snd (validateRepoByCloning E owner repo w))) =
            Console ''error''
              [''Warning: Failed to clean up temp directory '' @ tempDir_of E owner repo @ '':'',
               err_message e]"
    if "rm E (tempDir_of E owner repo) = Some e" for e
    using that by (simp add: validateRepoByCloning_run t cleanup_run Let_def)
  have same: "fst (validateRepoByCloning (E\<lparr>rm := outcome\<rparr>) owner repo w) =
       fst (validateRepoByCloning E owner repo w)"
    by (simp add: validateRepoByCloning_result verdict_ignores_rm tempDir_ignores_rm)
  have returns: "\<exists>v. fst (validateRepoByCloning E owner repo w) = Inr v"
    by (simp add: validateRepoByCloning_result)
  from last_step gone logged same returns show ?thesis
    by blast
qed

theorem cleanup_on_every_exit_path_witness:
  "rm stuck_env (tempDir_of stuck_env ''octo'' ''demo'') = Some busy_error \<and>
   last (trace (snd (validateRepoByCloning stuck_env ''octo'' ''demo'' start))) =
     Console ''error''
       [''Warning: Failed to clean up temp directory '' @ tempDir_of stuck_env ''octo'' ''demo'' @ '':'',
        ''EBUSY: resource busy or locked''] \<and>
   fst (validateRepoByCloning (stuck_env\<lparr>rm := (\<lambda>dir. None)\<rparr>) ''octo'' ''demo'' start) =
     fst (validateRepoByCloning stuck_env ''octo'' ''demo'' start) \<and>
   rm sample_env (tempDir_of sample_env ''octo'' ''demo'') = None \<and>
   \<not> on_disk (snd (validateRepoByCloning sample_env ''octo'' ''demo'' start))"
proof -
  have stuck: "rm stuck_env (tempDir_of stuck_env ''octo'' ''demo'') = Some busy_error"
    by (simp add: stuck_env_def)
  have free: "rm sample_env (tempDir_of sample_env ''octo'' ''demo'') = None"
    by (simp add: sample_env_def)
  from stuck free
    cleanup_on_every_exit_path [of stuck_env "''octo''" "''demo''" start "\<lambda>dir. None"]
    cleanup_on_every_exit_path [of sample_env "''octo''" "''demo''" start "\<lambda>dir. None"]
  show ?thesis by (simp add: busy_error_def)
qed

subsection \<open>The flag of the lint failure\<close>

lemma computeAriScore_value_metrics:
  assumes "computeAriScore_value E a = Inr s"
  shows "\<exists>e wn c h. get_prop s ''metrics'' =
           Inr (Obj [(''eslint_errors'', e), (''eslint_warnnings'', wn),
                     (''critical_vulns'', c), (''high_vulns'', h)])"
  using assms
  by (auto simp: computeAriScore_value_def try_bind_def Let_def
        split: sum.splits option.splits prod.splits)

text \<open>
  C10, as the code has it. The flag lives in the result of the lint runner only: its
  \<^verbatim>\<open>failed\<close> property is \<^verbatim>\<open>true\<close> exactly when the lint tool could not complete,
  and then the counts are the penalty values. The metrics of a scoring result are the
  four counts and nothing else.
\<close>

theorem lint_failure_flag_in_runner_result:
  "(\<exists>r. fst (runESLintAnalysis E repoDir w) = Inr r \<and>
        (get_prop r ''failed'' = Inr (Bool True) \<longleftrightarrow> lint_tool_fails E repoDir) \<and>
        (lint_tool_fails E repoDir \<longrightarrow>
           get_prop r ''errors'' = Inr (Num 20) \<and> get_prop r ''warnings'' = Inr (Num 50)))
   \<and> (\<forall>s. computeAriScore_value E a = Inr s \<longrightarrow>
          (\<exists>e wn c h. get_prop s ''metrics'' =
             Inr (Obj [(''eslint_errors'', e), (''eslint_warnnings'', wn),
                       (''critical_vulns'', c), (''high_vulns'', h)])))"
proof -
  have runner: "\<exists>r. fst (runESLintAnalysis E repoDir w) = Inr r \<and>
        (get_prop r ''failed'' = Inr (Bool True) \<longleftrightarrow> lint_tool_fails E repoDir) \<and>
        (lint_tool_fails E repoDir \<longrightarrow>
           get_prop r ''errors'' = Inr (Num 20) \<and> get_prop r ''warnings'' = Inr (Num 50))"
  proof (cases "lint_tool_fails E repoDir")
    case True
    from runESLintAnalysis_penalty [OF True, of w] True show ?thesis
      by simp
  next
    case False
    from runESLintAnalysis_counts [OF False, of w] False show ?thesis
      by auto
  qed
  from runner computeAriScore_value_metrics show ?thesis
    by blast
qed

theorem lint_failure_flag_in_runner_result_witness:
  "lint_tool_fails lint_failing_env ''/srv/ari/temp_repos/octo_demo_1'' \<and>
   (\<exists>r. fst (runESLintAnalysis lint_failing_env ''/srv/ari/temp_repos/octo_demo_1'' start) = Inr r \<and>
        get_prop r ''failed'' = Inr (Bool True) \<and>
        get_prop r ''errors'' = Inr (Num 20) \<and> get_prop r ''warnings'' = Inr (Num 50)) \<and>
   computeAriScore_value lint_failing_env degraded_analysis = Inr degraded_scoring \<and>
   (\<exists>e wn c h. get_prop degraded_scoring ''metrics'' =
      Inr (Obj [(''eslint_errors'', e), (''eslint_warnnings'', wn),
                (''critical_vulns'', c), (''high_vulns'', h)]))"
proof -
  have fails: "lint_tool_fails lint_failing_env ''/srv/ari/temp_repos/octo_demo_1''"
    by (simp add: lint_tool_fails_def lint_failing_env_def sample_env_def)
  have scored: "computeAriScore_value lint_failing_env degraded_analysis = Inr degraded_scoring"
    by (simp add: computeAriScore_value_def degraded_analysis_def degraded_scoring_def
          degraded_metrics_def try_bind_def ToNumber_def score_defs Let_def floor_numeral_div)
  from fails scored
    lint_failure_flag_in_runner_result
      [of lint_failing_env "''/srv/ari/temp_repos/octo_demo_1''" start degraded_analysis]
  show ?thesis by auto
qed

text \<open>
  C10, as stated, fails: with the lint tool failing, the analysis the orchestrator merges
  has no \<^verbatim>\<open>failed\<close> property, the metrics of the scoring result have no flag under any
  of the names, and the context built for the explanation generator says
  \<^verbatim>\<open>eslint_failed: false\<close>.
\<close>

theorem lint_failure_flag_counterexample:
  "lint_tool_fails lint_failing_env ''/srv/ari/temp_repos/octo_demo_1'' \<and>
   fst (analyze lint_failing_env ''/srv/ari/temp_repos/octo_demo_1'' start) =
     Inr degraded_analysis \<and>
   computeAriScore_value lint_failing_env degraded_analysis = Inr degraded_scoring \<and>
   get_prop degraded_scoring ''metrics'' = Inr degraded_metrics \<and>
   get_prop degraded_metrics ''lintFailed'' = Inr Undefined \<and>
   get_prop degraded_metrics ''failed'' = Inr Undefined \<and>
   get_prop degraded_metrics ''eslint_failed'' = Inr Undefined \<and>
   explanationInput degraded_scoring degraded_analysis =
     Inr (Obj [(''ari_score'', Num 43),
               (''status'', Str ''High Risk''),
               (''metrics'', degraded_metrics),
               (''context'', Obj [(''has_tests'', Bool False),
                                  (''eslint_failed'', Bool False)])])"
proof -
  have fails: "lint_tool_fails lint_failing_env ''/srv/ari/temp_repos/octo_demo_1''"
    by (simp add: lint_tool_fails_def lint_failing_env_def sample_env_def)
  have lint: "runESLintAnalysis lint_failing_env ''/srv/ari/temp_repos/octo_demo_1'' w =
      (Inr (Obj [(''errors'', Num 20), (''warnings'', Num 50), (''failed'', Bool True)]),
       w\<lparr>trace := trace w @
            [Require ''eslint'', LintFiles ''/srv/ari/temp_repos/octo_demo_1'',
             Console ''warn''
               [''ESLint failed '' @ warning_dash @ '' applying conservative penalty'']]\<rparr>)" for w
    by (simp add: runESLintAnalysis_def eslint_try_def require_eslint_io_def lintFiles_io_def
          option_throw_def io_defs lint_failing_env_def sample_env_def)
  have audit: "fst (runNpmAudit lint_failing_env ''/srv/ari/temp_repos/octo_demo_1'' w) =
      Inr (Obj [(''critical'', Num 1), (''high'', Num 2)])" for w
    by (simp add: runNpmAudit_def audit_try_def auditCommand_def execCommand_def
          exec_outcome_def audit_summary_def try_bind_def opt_chain_def nullish_def js_or_def
          lint_failing_env_def sample_env_defs trim_samples sample_parse_facts Let_def)
  obtain w1 where inst:
    "installDependencies lint_failing_env ''/srv/ari/temp_repos/octo_demo_1'' start = (Inr (), w1)"
    using installDependencies_returns by blast
  have merged: "fst (analyze lint_failing_env ''/srv/ari/temp_repos/octo_demo_1'' start) =
      Inr degraded_analysis"
    using audit [of "w1\<lparr>trace := trace w1 @
            [Require ''eslint'', LintFiles ''/srv/ari/temp_repos/octo_demo_1'',
             Console ''warn''
               [''ESLint failed '' @ warning_dash @ '' applying conservative penalty'']]\<rparr>"]
    by (auto simp: analyze_def io_defs inst lint mergeResults_def try_bind_def
          degraded_analysis_def split: prod.splits sum.splits)
  have scored: "computeAriScore_value lint_failing_env degraded_analysis = Inr degraded_scoring"
    by (simp add: computeAriScore_value_def degraded_analysis_def degraded_scoring_def
          degraded_metrics_def try_bind_def ToNumber_def score_defs Let_def floor_numeral_div)
  have input: "explanationInput degraded_scoring degraded_analysis =
     Inr (Obj [(''ari_score'', Num 43),
               (''status'', Str ''High Risk''),
               (''metrics'', degraded_metrics),
               (''context'', Obj [(''has_tests'', Bool False),
                                  (''eslint_failed'', Bool False)])])"
    by (simp add: explanationInput_def degraded_scoring_def degraded_analysis_def
          try_bind_def js_or_def)
  from fails merged scored input show ?thesis
    by (simp add: degraded_scoring_def degraded_metrics_def)
qed

end
